theory Spec2Isabelle
  imports Main "HOL-Library.Word" "HOL-Library.Char_ord" "HOL-Library.List_Lexorder"
begin

section \<open>h5utils: project paths (project\_path.py)\<close>

text \<open>
  Exceptions of the Python code are values of one datatype. \<open>OSError\<close> stands for any
  error the operating system reports for a path operation (listing something that is not a
  directory, creating a directory below a regular file, opening a file that is no container).
\<close>

datatype error =
    FileNotFoundError
  | OSError
  | InvalidGitRepositoryError
  | NoSuchPathError
  | GitCommandError
  | KeyError
  | TypeError
  | ValueError
  | AttributeError
  | UnicodeDecodeError

subsection \<open>os.path on strings\<close>

text \<open>
  \<open>os.path.dirname\<close> (posixpath): everything up to and including the last slash, with the
  trailing slashes removed unless the head consists of slashes only.
  \<^verbatim>\<open>
  i = p.rfind('/') + 1
  head = p[:i]
  if head and head != '/' * len(head):
      head = head.rstrip('/')
  return head
  \<close>
\<close>

definition dirname :: "string \<Rightarrow> string" where
  "dirname p =
     (let head = rev (dropWhile (\<lambda>c. c \<noteq> CHR ''/'') (rev p)) in
      if head \<noteq> [] \<and> head \<noteq> replicate (length head) (CHR ''/'')
      then rev (dropWhile (\<lambda>c. c = CHR ''/'') (rev head))
      else head)"

text \<open>
  \<open>os.path.join\<close> for two arguments (posixpath); the three-argument call of the source is
  the two-argument one iterated.
  \<^verbatim>\<open>
  if b.startswith('/'): path = b
  elif not path or path.endswith('/'): path += b
  else: path += '/' + b
  \<close>
\<close>

definition join :: "string \<Rightarrow> string \<Rightarrow> string" where
  "join a b =
     (if b \<noteq> [] \<and> hd b = CHR ''/'' then b
      else if a = [] \<or> last a = CHR ''/'' then a @ b
      else a @ ''/'' @ b)"

subsection \<open>The directory tree and the version-control query\<close>

text \<open>
  The operating system's side: a directory tree without symbolic links. An entry is the
  list of its path components below the root; the root itself (the empty list) always
  exists. A path string is resolved against the working directory when it is relative;
  empty components and \<open>.\<close> are skipped and \<open>..\<close> steps to the parent (on the path
  string: in a tree without links that is the parent directory).
  The answer of the version-control query of \<open>gitdir\<close> is part of the environment.
\<close>

datatype git_result =
    TopLevel string
  | NotARepository
  | NoSuchPath
  | GitFailure

record fs =
  cwd :: string
  dirs :: "string list list"
  files :: "string list list"
  git :: git_result

fun split_sep :: "string \<Rightarrow> string list" where
  "split_sep [] = [[]]"
| "split_sep (c # cs) =
     (if c = CHR ''/'' then [] # split_sep cs
      else (case split_sep cs of
              [] \<Rightarrow> [[c]]
            | w # ws \<Rightarrow> (c # w) # ws))"

definition step_component :: "string list \<Rightarrow> string \<Rightarrow> string list" where
  "step_component acc c =
     (if c = [] \<or> c = ''.'' then acc
      else if c = ''..'' then butlast acc
      else acc @ [c])"

definition components :: "string \<Rightarrow> string list" where
  "components p = foldl step_component [] (split_sep p)"

definition resolve :: "fs \<Rightarrow> string \<Rightarrow> string list" where
  "resolve s p =
     (if p \<noteq> [] \<and> hd p = CHR ''/'' then components p
      else components (cwd s @ ''/'' @ p))"

definition is_dir :: "fs \<Rightarrow> string list \<Rightarrow> bool" where
  "is_dir s c = (c = [] \<or> c \<in> set (dirs s))"

definition is_file :: "fs \<Rightarrow> string list \<Rightarrow> bool" where
  "is_file s c = (c \<noteq> [] \<and> c \<notin> set (dirs s) \<and> c \<in> set (files s))"

text \<open>\<open>os.listdir\<close>: the names of the entries of a directory; \<open>None\<close> when it raises.\<close>

definition listdir :: "fs \<Rightarrow> string \<Rightarrow> string list option" where
  "listdir s p =
     (let c = resolve s p in
      if is_dir s c
      then Some (map last (filter (\<lambda>e. e \<noteq> [] \<and> butlast e = c) (dirs s @ files s)))
      else None)"

text \<open>\<open>os.path.exists\<close>\<close>

definition exists :: "fs \<Rightarrow> string \<Rightarrow> bool" where
  "exists s p = (let c = resolve s p in is_dir s c \<or> is_file s c)"

text \<open>
  \<open>os.makedirs\<close> (with \<open>exist_ok=False\<close>): creates the directory and every missing
  intermediate one; raises when the directory exists already or when a regular file is on
  the way.
\<close>

definition prefixes_of :: "string list \<Rightarrow> string list list" where
  "prefixes_of c = map (\<lambda>n. take n c) [1 ..< Suc (length c)]"

definition makedirs :: "fs \<Rightarrow> string \<Rightarrow> error + fs" where
  "makedirs s p =
     (let c = resolve s p in
      if list_ex (is_file s) (prefixes_of c) then Inl OSError
      else if is_dir s c then Inl OSError
      else Inr (s\<lparr>dirs := dirs s @ filter (\<lambda>q. q \<notin> set (dirs s)) (prefixes_of c)\<rparr>))"

subsection \<open>find\_project\_root, gitdir, datadir, plotsdir\<close>

text \<open>
  \<^verbatim>\<open>
  current_dir = os.getcwd()
  while current_dir != os.path.dirname(current_dir):
      if marker in os.listdir(current_dir):
          return current_dir
      current_dir = os.path.dirname(current_dir)
  raise FileNotFoundError(...)
  \<close>
\<close>

function find_from :: "fs \<Rightarrow> string \<Rightarrow> string \<Rightarrow> error + string" where
  "find_from s marker current_dir =
     (if current_dir \<noteq> dirname current_dir
      then (case listdir s current_dir of
              None \<Rightarrow> Inl OSError
            | Some names \<Rightarrow>
                if marker \<in> set names then Inr current_dir
                else find_from s marker (dirname current_dir))
      else Inl FileNotFoundError)"
  by pat_completeness auto
termination
proof (relation "measure (\<lambda>(s, marker, d). length d)")
  show "wf (measure (\<lambda>(s, marker, d). length d))"
    by simp
next
  fix s :: fs and marker current_dir :: string and names :: "string list"
  assume neq: "current_dir \<noteq> dirname current_dir"
  define P where "P = (\<lambda>c. c \<noteq> CHR ''/'')"
  define Q where "Q = (\<lambda>c. c = CHR ''/'')"
  define head where "head = rev (dropWhile P (rev current_dir))"
  have p_head: "current_dir = head @ rev (takeWhile P (rev current_dir))"
  proof -
    have "current_dir = rev (takeWhile P (rev current_dir) @ dropWhile P (rev current_dir))"
      by simp
    also have "\<dots> = rev (dropWhile P (rev current_dir)) @ rev (takeWhile P (rev current_dir))"
      by (rule rev_append)
    finally show ?thesis by (simp only: head_def)
  qed
  have head_strip: "head = rev (dropWhile Q (rev head)) @ rev (takeWhile Q (rev head))"
  proof -
    have "head = rev (takeWhile Q (rev head) @ dropWhile Q (rev head))"
      by simp
    also have "\<dots> = rev (dropWhile Q (rev head)) @ rev (takeWhile Q (rev head))"
      by (rule rev_append)
    finally show ?thesis .
  qed
  have dn: "dirname current_dir = head \<or> dirname current_dir = rev (dropWhile Q (rev head))"
    by (simp add: dirname_def Let_def head_def P_def Q_def)
  from dn p_head head_strip
  obtain t where t: "current_dir = dirname current_dir @ t"
    by (metis append.assoc)
  with neq have "t \<noteq> []" by auto
  with t have "length (dirname current_dir) < length current_dir"
    by (metis length_append length_greater_0_conv less_add_same_cancel1)
  then show "((s, marker, dirname current_dir), (s, marker, current_dir))
      \<in> measure (\<lambda>(s, marker, d). length d)"
    by simp
qed

definition find_project_root :: "fs \<Rightarrow> string \<Rightarrow> error + string" where
  "find_project_root s marker = find_from s marker (cwd s)"

definition default_marker :: string where
  "default_marker = ''setup.cfg''"

text \<open>
  \<^verbatim>\<open>
  try:
      git_repo = git.Repo(os.getcwd(), search_parent_directories=True)
      git_root = git_repo.git.rev_parse('--show-toplevel')
      return git_root
  except (InvalidGitRepositoryError, NoSuchPathError):
      return find_project_root()
  \<close>
\<close>

definition gitdir :: "fs \<Rightarrow> error + string" where
  "gitdir s =
     (case git s of
        TopLevel git_root \<Rightarrow> Inr git_root
      | NotARepository \<Rightarrow> find_project_root s default_marker
      | NoSuchPath \<Rightarrow> find_project_root s default_marker
      | GitFailure \<Rightarrow> Inl GitCommandError)"

text \<open>
  \<^verbatim>\<open>
  path = os.path.join(gitdir(), 'data/', path)
  if (not os.path.exists(path)) and mkdir:
      os.makedirs(path)
  return path
  \<close>
  The result is the returned path or the exception, together with the directory tree the
  call leaves behind.
\<close>

definition resource_dir :: "string \<Rightarrow> fs \<Rightarrow> string \<Rightarrow> bool \<Rightarrow> (error + string) \<times> fs" where
  "resource_dir category s path mkdir =
     (case gitdir s of
        Inl e \<Rightarrow> (Inl e, s)
      | Inr root \<Rightarrow>
          (let path' = join (join root category) path in
           if \<not> exists s path' \<and> mkdir
           then (case makedirs s path' of
                   Inl e \<Rightarrow> (Inl e, s)
                 | Inr s' \<Rightarrow> (Inr path', s'))
           else (Inr path', s)))"

definition datadir :: "fs \<Rightarrow> string \<Rightarrow> bool \<Rightarrow> (error + string) \<times> fs" where
  "datadir s path mkdir = resource_dir ''data/'' s path mkdir"

definition plotsdir :: "fs \<Rightarrow> string \<Rightarrow> bool \<Rightarrow> (error + string) \<times> fs" where
  "plotsdir s path mkdir = resource_dir ''plots/'' s path mkdir"

text \<open>The directories the upward walk passes, the last one being the filesystem root.\<close>

function ancestors :: "string \<Rightarrow> string list" where
  "ancestors d = (if d \<noteq> dirname d then d # ancestors (dirname d) else [d])"
  by pat_completeness auto
termination
proof (relation "measure length")
  show "wf (measure length)" by simp
next
  fix d :: string
  assume neq: "d \<noteq> dirname d"
  define P where "P = (\<lambda>c. c \<noteq> CHR ''/'')"
  define Q where "Q = (\<lambda>c. c = CHR ''/'')"
  define head where "head = rev (dropWhile P (rev d))"
  have p_head: "d = head @ rev (takeWhile P (rev d))"
  proof -
    have "d = rev (takeWhile P (rev d) @ dropWhile P (rev d))"
      by simp
    also have "\<dots> = rev (dropWhile P (rev d)) @ rev (takeWhile P (rev d))"
      by (rule rev_append)
    finally show ?thesis by (simp only: head_def)
  qed
  have head_strip: "head = rev (dropWhile Q (rev head)) @ rev (takeWhile Q (rev head))"
  proof -
    have "head = rev (takeWhile Q (rev head) @ dropWhile Q (rev head))"
      by simp
    also have "\<dots> = rev (dropWhile Q (rev head)) @ rev (takeWhile Q (rev head))"
      by (rule rev_append)
    finally show ?thesis .
  qed
  have dn: "dirname d = head \<or> dirname d = rev (dropWhile Q (rev head))"
    by (simp add: dirname_def Let_def head_def P_def Q_def)
  from dn p_head head_strip
  obtain t where t: "d = dirname d @ t"
    by (metis append.assoc)
  with neq have "t \<noteq> []" by auto
  with t have "length (dirname d) < length d"
    by (metis length_append length_greater_0_conv less_add_same_cancel1)
  then show "(dirname d, d) \<in> measure length"
    by simp
qed

text \<open>A directory that can be listed and holds the marker.\<close>

definition has_marker :: "fs \<Rightarrow> string \<Rightarrow> string \<Rightarrow> bool" where
  "has_marker s marker d =
     (case listdir s d of None \<Rightarrow> False | Some names \<Rightarrow> marker \<in> set names)"

text \<open>A directory that can be listed and does not hold the marker.\<close>

definition lacks_marker :: "fs \<Rightarrow> string \<Rightarrow> string \<Rightarrow> bool" where
  "lacks_marker s marker d =
     (case listdir s d of None \<Rightarrow> False | Some names \<Rightarrow> marker \<notin> set names)"

subsection \<open>Concrete directory trees\<close>

definition root_marker_fs :: fs where
  "root_marker_fs =
     \<lparr>cwd = ''/a'', dirs = [[''a'']], files = [[''setup.cfg'']], git = NotARepository\<rparr>"

definition root_cwd_fs :: fs where
  "root_cwd_fs =
     \<lparr>cwd = ''/'', dirs = [], files = [[''setup.cfg'']], git = NotARepository\<rparr>"

definition project_fs :: "git_result \<Rightarrow> fs" where
  "project_fs g =
     \<lparr>cwd = ''/p/a'', dirs = [[''p''], [''p'', ''a'']], files = [[''p'', ''setup.cfg'']],
      git = g\<rparr>"

definition nested_fs :: fs where
  "nested_fs = \<lparr>cwd = ''/p/data/x'',
     dirs = [[''p''], [''p'', ''data''], [''p'', ''data'', ''x'']],
     files = [[''p'', ''setup.cfg'']], git = NotARepository\<rparr>"

section \<open>h5utils: writing to a container file (h5\_interfaces.py)\<close>

subsection \<open>Arrays\<close>

text \<open>
  A data array is its shape and its elements in row-major order; an element is the bit
  pattern of a 32-bit float. An array built by the numeric library has as many elements as
  its shape says.
\<close>

type_synonym float32 = "32 word"

record ndarray =
  shape :: "nat list"
  elems :: "float32 list"

definition wf_array :: "ndarray \<Rightarrow> bool" where
  "wf_array a = (length (elems a) = prod_list (shape a))"

text \<open>
  Label and attribute arrays: the shape, the element type and the elements in row-major
  order, an element being a byte string, a unicode string (its code points) or something
  else (a number).
\<close>

datatype dtype = Float32 | Float64 | Int64 | BytesS nat | UnicodeU nat

datatype array_item = Bytes string | Text "nat list" | NotBytes

record nparray =
  a_shape :: "nat list"
  a_dtype :: dtype
  a_items :: "array_item list"

definition a_size :: "nparray \<Rightarrow> nat" where
  "a_size v = prod_list (a_shape v)"

text \<open>
  What an attribute is read as: an array (a scalar is an array without axes), or, for a
  variable-length string, a Python \<open>str\<close>, given by its code points.
\<close>

type_synonym ustring = "nat list"

datatype attr_value = ArrayValue nparray | StrValue ustring

text \<open>
  What a dataset holds in one place: a 32-bit float; or, in a dataset of another element
  type, the value a 32-bit float was converted to by the library when it was written (kept
  as that float and the type; the conversion itself is not computed); or a value that the
  write left undetermined.
\<close>

datatype cell = F32 float32 | Cast dtype float32 | Undetermined

definition to_cell :: "dtype \<Rightarrow> float32 \<Rightarrow> cell" where
  "to_cell t w = (if t = Float32 then F32 w else Cast t w)"

text \<open>An array as a read of a dataset returns it: shape, element type and elements.\<close>

record h5array =
  r_shape :: "nat list"
  r_dtype :: dtype
  r_cells :: "cell list"

text \<open>The 32-bit float array that a read returns when it returns the data array.\<close>

definition float32_array :: "ndarray \<Rightarrow> h5array" where
  "float32_array a = \<lparr>r_shape = shape a, r_dtype = Float32, r_cells = map F32 (elems a)\<rparr>"

subsection \<open>Container files\<close>

text \<open>
  A dataset has a shape, a chunk shape, an element type, its elements and its attributes,
  the attributes in the order in which the library iterates over them (by name). A container
  file maps names to datasets (the writer addresses datasets directly below the root group;
  a name is taken as one key). A path of the store is missing (and a file can or cannot be
  created there), holds something that is no container file, or holds a container file.
\<close>

record dataset =
  ds_shape :: "nat list"
  ds_chunks :: "nat list"
  ds_dtype :: dtype
  ds_data :: "cell list"
  ds_attrs :: "(string \<times> attr_value) list"

type_synonym h5file = "string \<rightharpoonup> dataset"

datatype node = Missing bool | Foreign | H5File h5file

type_synonym store = "string \<Rightarrow> node"

text \<open>\<open>os.path.exists\<close> on the store.\<close>

definition path_exists :: "store \<Rightarrow> string \<Rightarrow> bool" where
  "path_exists st p = (case st p of Missing _ \<Rightarrow> False | _ \<Rightarrow> True)"

text \<open>\<open>h5py.File(path, 'a')\<close>: read/write if the file exists, create it otherwise.\<close>

definition open_append :: "store \<Rightarrow> string \<Rightarrow> error + store \<times> h5file" where
  "open_append st p =
     (case st p of
        Missing creatable \<Rightarrow>
          if creatable then Inr (st(p := H5File Map.empty), Map.empty) else Inl OSError
      | Foreign \<Rightarrow> Inl OSError
      | H5File f \<Rightarrow> Inr (st, f))"

text \<open>\<open>h5py.File(path, 'r+')\<close>: read/write, the file must exist.\<close>

definition open_rw :: "store \<Rightarrow> string \<Rightarrow> error + h5file" where
  "open_rw st p =
     (case st p of
        Missing _ \<Rightarrow> Inl FileNotFoundError
      | Foreign \<Rightarrow> Inl OSError
      | H5File f \<Rightarrow> Inr f)"

text \<open>
  What the container library accepts as a chunked layout: the dataset is not scalar, the
  chunk shape has the dataset's rank (at most 32), every chunk dimension is positive and no
  larger than the dataset's, and a chunk of 4-byte elements stays below 4 GiB (the bound of
  the 1.x releases of the container format).
\<close>

definition chunked_layout_ok :: "nat list \<Rightarrow> nat list \<Rightarrow> bool" where
  "chunked_layout_ok shp chunks =
     (shp \<noteq> [] \<and> length shp \<le> 32 \<and> length chunks = length shp
      \<and> list_all2 (\<lambda>c d. 0 < c \<and> c \<le> d) chunks shp
      \<and> 4 * prod_list chunks < 2 ^ 32)"

text \<open>Safe casting from 32-bit float, as \<open>numpy.can_cast(np.float32, t)\<close>.\<close>

definition can_cast_float32 :: "dtype \<Rightarrow> bool" where
  "can_cast_float32 t = (t = Float32 \<or> t = Float64)"

text \<open>
  \<open>Group.require_dataset(name, shape=, chunks=, dtype=np.float32)\<close>: creates the dataset
  (filled with zeros) when the name is absent; otherwise the existing dataset is returned as
  it is, after its shape was compared and the cast to its element type was checked.
\<close>

definition require_dataset ::
  "h5file \<Rightarrow> string \<Rightarrow> nat list \<Rightarrow> nat list \<Rightarrow> error + h5file" where
  "require_dataset f name shp chunks =
     (case f name of
        None \<Rightarrow>
          if shp = [] then Inl TypeError
          else if \<not> chunked_layout_ok shp chunks then Inl ValueError
          else Inr (f(name \<mapsto>
                 \<lparr>ds_shape = shp, ds_chunks = chunks, ds_dtype = Float32,
                  ds_data = replicate (prod_list shp) (F32 0), ds_attrs = []\<rparr>))
      | Some d \<Rightarrow>
          if shp \<noteq> ds_shape d then Inl TypeError
          else if \<not> can_cast_float32 (ds_dtype d) then Inl TypeError
          else Inr f)"

text \<open>
  \<^verbatim>\<open>
  with h5py.File(file_path, 'a') as file:
      file.require_dataset(dataset_name, shape=shape,
                           chunks=(1, *shape[1:]), dtype=np.float32)
  \<close>
  The result is the exception raised, if any, and the store the call leaves behind.
\<close>

definition setup_hdf5_file ::
  "store \<Rightarrow> string \<Rightarrow> string \<Rightarrow> nat list \<Rightarrow> error option \<times> store" where
  "setup_hdf5_file st file_path dataset_name shp =
     (case open_append st file_path of
        Inl e \<Rightarrow> (Some e, st)
      | Inr (st', file) \<Rightarrow>
          (case require_dataset file dataset_name shp (1 # drop 1 shp) of
             Inl e \<Rightarrow> (Some e, st')
           | Inr file' \<Rightarrow> (None, st'(file_path := H5File file'))))"

subsection \<open>Assignment to the whole dataset\<close>

text \<open>
  \<open>dataset[...] = data_array\<close> broadcasts the array to the dataset's shape as the
  container library does: seen from the last axis, every dimension of the array is 1 or the
  dataset's, and none of the array's extra leading dimensions is above 1; anything else is
  refused with TypeError.
\<close>

fun aligned_ok :: "nat list \<Rightarrow> nat list \<Rightarrow> bool" where
  "aligned_ok [] cs = True"
| "aligned_ok (t # ts) [] = (t \<le> 1 \<and> aligned_ok ts [])"
| "aligned_ok (t # ts) (c # cs) = ((t = 1 \<or> t = c) \<and> aligned_ok ts cs)"

definition broadcastable :: "nat list \<Rightarrow> nat list \<Rightarrow> bool" where
  "broadcastable src tgt = aligned_ok (rev src) (rev tgt)"

fun unravel :: "nat list \<Rightarrow> nat \<Rightarrow> nat list" where
  "unravel [] k = []"
| "unravel (d # ds) k = (k div prod_list ds) mod d # unravel ds k"

fun ravel :: "nat list \<Rightarrow> nat list \<Rightarrow> nat" where
  "ravel (d # ds) (i # is) = i * prod_list ds + ravel ds is"
| "ravel ds is = 0"

definition pad_shape :: "nat list \<Rightarrow> nat list \<Rightarrow> nat list" where
  "pad_shape src tgt =
     replicate (length tgt - length src) 1 @ drop (length src - length tgt) src"

definition source_index :: "nat list \<Rightarrow> nat list \<Rightarrow> nat \<Rightarrow> nat" where
  "source_index src tgt k =
     ravel (pad_shape src tgt)
       (map2 (\<lambda>s i. if s = 1 then 0 else i) (pad_shape src tgt) (unravel tgt k))"

definition broadcast_elems :: "ndarray \<Rightarrow> nat list \<Rightarrow> float32 list" where
  "broadcast_elems a tgt =
     map (\<lambda>k. elems a ! source_index (shape a) tgt k) [0 ..< prod_list tgt]"

text \<open>
  The library has conversions from 32-bit floats to the numeric element types, none to
  strings.
\<close>

definition convertible :: "dtype \<Rightarrow> bool" where
  "convertible t = (case t of BytesS _ \<Rightarrow> False | UnicodeU _ \<Rightarrow> False | _ \<Rightarrow> True)"

text \<open>
  The assignment: the shape check, nothing to write for a dataset without elements, then the
  write, which converts every value to the dataset's element type. An array without
  elements passes the shape check when the dimension 0 is an extra leading one; the library
  then reads past the array, and what the dataset receives is not determined.
\<close>

definition assign_all :: "dataset \<Rightarrow> ndarray \<Rightarrow> error + dataset" where
  "assign_all d a =
     (if \<not> broadcastable (shape a) (ds_shape d) then Inl TypeError
      else if prod_list (ds_shape d) = 0 then Inr d
      else if \<not> convertible (ds_dtype d) then Inl OSError
      else Inr (d\<lparr>ds_data :=
             (if prod_list (shape a) = 0
              then replicate (prod_list (ds_shape d)) Undetermined
              else map (to_cell (ds_dtype d)) (broadcast_elems a (ds_shape d)))\<rparr>))"

text \<open>
  \<open>dataset.attrs[name] = value\<close> replaces the attribute of that name, the new one taking
  its place in the order of names; an array of unicode strings has no conversion to the
  container's types.
\<close>

definition put_attr :: "string \<Rightarrow> attr_value \<Rightarrow> (string \<times> attr_value) list
    \<Rightarrow> (string \<times> attr_value) list" where
  "put_attr name v attrs = insort_key fst (name, v) (filter (\<lambda>kv. fst kv \<noteq> name) attrs)"

definition attrs_set :: "dataset \<Rightarrow> string \<Rightarrow> nparray \<Rightarrow> error + dataset" where
  "attrs_set d name v =
     (case a_dtype v of
        UnicodeU _ \<Rightarrow> Inl TypeError
      | _ \<Rightarrow> Inr (d\<lparr>ds_attrs := put_attr name (ArrayValue v) (ds_attrs d)\<rparr>))"

subsection \<open>write\_data\_and\_label\<close>

text \<open>
  \<^verbatim>\<open>
  if not os.path.exists(file_path):
      setup_hdf5_file(file_path, dataset_name, data_array.shape)
  with h5py.File(file_path, 'r+') as file:
      dataset = file[dataset_name]
      dataset[...] = data_array
      dataset.attrs['label'] = label_array
  \<close>
\<close>

definition write_opened ::
  "store \<Rightarrow> string \<Rightarrow> string \<Rightarrow> ndarray \<Rightarrow> nparray \<Rightarrow> error option \<times> store" where
  "write_opened st file_path dataset_name data_array label_array =
     (case open_rw st file_path of
        Inl e \<Rightarrow> (Some e, st)
      | Inr file \<Rightarrow>
          (case file dataset_name of
             None \<Rightarrow> (Some KeyError, st)
           | Some dataset \<Rightarrow>
               (case assign_all dataset data_array of
                  Inl e \<Rightarrow> (Some e, st)
                | Inr d1 \<Rightarrow>
                    (case attrs_set d1 ''label'' label_array of
                       Inl e \<Rightarrow> (Some e, st(file_path := H5File (file(dataset_name \<mapsto> d1))))
                     | Inr d2 \<Rightarrow> (None, st(file_path := H5File (file(dataset_name \<mapsto> d2))))))))"

definition write_data_and_label ::
  "store \<Rightarrow> string \<Rightarrow> string \<Rightarrow> ndarray \<Rightarrow> nparray \<Rightarrow> error option \<times> store" where
  "write_data_and_label st file_path dataset_name data_array label_array =
     (if \<not> path_exists st file_path
      then (case setup_hdf5_file st file_path dataset_name (shape data_array) of
              (Some e, st') \<Rightarrow> (Some e, st')
            | (None, st') \<Rightarrow> write_opened st' file_path dataset_name data_array label_array)
      else write_opened st file_path dataset_name data_array label_array)"

text \<open>
  Reading back, as the example script does: \<open>file[dataset_name][...]\<close>, an array of
  the dataset's element type, and \<open>file[dataset_name].attrs['label']\<close>, on the file
  opened for reading.
\<close>

definition read_dataset :: "store \<Rightarrow> string \<Rightarrow> string \<Rightarrow> error + h5array" where
  "read_dataset st file_path dataset_name =
     (case open_rw st file_path of
        Inl e \<Rightarrow> Inl e
      | Inr file \<Rightarrow>
          (case file dataset_name of
             None \<Rightarrow> Inl KeyError
           | Some d \<Rightarrow>
               Inr \<lparr>r_shape = ds_shape d, r_dtype = ds_dtype d, r_cells = ds_data d\<rparr>))"

definition read_label :: "store \<Rightarrow> string \<Rightarrow> string \<Rightarrow> error + attr_value" where
  "read_label st file_path dataset_name =
     (case open_rw st file_path of
        Inl e \<Rightarrow> Inl e
      | Inr file \<Rightarrow>
          (case file dataset_name of
             None \<Rightarrow> Inl KeyError
           | Some d \<Rightarrow>
               (case map_of (ds_attrs d) ''label'' of
                  None \<Rightarrow> Inl KeyError
                | Some v \<Rightarrow> Inr v)))"

subsection \<open>Datasets after creation and after a write\<close>

text \<open>The dataset that \<open>require_dataset\<close> creates.\<close>

definition new_dataset :: "nat list \<Rightarrow> dataset" where
  "new_dataset shp = \<lparr>ds_shape = shp, ds_chunks = 1 # drop 1 shp, ds_dtype = Float32,
     ds_data = replicate (prod_list shp) (F32 0), ds_attrs = []\<rparr>"

text \<open>
  The dataset after a write of the values \<open>ws\<close>: the values converted to its element type,
  and the label attribute in place of any earlier one.
\<close>

definition stored :: "dataset \<Rightarrow> float32 list \<Rightarrow> nparray \<Rightarrow> dataset" where
  "stored d ws l =
     d\<lparr>ds_data := map (to_cell (ds_dtype d)) ws,
       ds_attrs := put_attr ''label'' (ArrayValue l) (ds_attrs d)\<rparr>"

subsection \<open>Concrete stores and arrays\<close>

definition fresh_store :: store where
  "fresh_store = (\<lambda>p. Missing True)"

definition example_data :: ndarray where
  "example_data = \<lparr>shape = [2, 3], elems = [1, 2, 3, 4, 5, 6]\<rparr>"

definition example_row :: ndarray where
  "example_row = \<lparr>shape = [3], elems = [7, 8, 9]\<rparr>"

definition example_label :: nparray where
  "example_label =
     \<lparr>a_shape = [2], a_dtype = BytesS 1, a_items = [Bytes ''x'', Bytes ''y'']\<rparr>"

definition example_store :: store where
  "example_store = fresh_store(''f.h5'' := H5File [''image'' \<mapsto> new_dataset [2, 3]])"

definition example_data2 :: ndarray where
  "example_data2 = \<lparr>shape = [2, 3], elems = [11, 12, 13, 14, 15, 16]\<rparr>"

definition example_square :: ndarray where
  "example_square = \<lparr>shape = [2, 2], elems = [1, 2, 3, 4]\<rparr>"

section \<open>h5utils: printing the structure of a container (h5\_interfaces.py)\<close>

subsection \<open>Decoding byte strings\<close>

text \<open>
  A decoded string is the list of its code points. \<open>bytes.decode('utf-8')\<close> accepts the
  well-formed byte sequences of UTF-8 (no overlong forms, no surrogates, nothing above
  U+10FFFF) and raises UnicodeDecodeError on anything else.
\<close>

definition continuation :: "nat \<Rightarrow> bool" where
  "continuation b = (128 \<le> b \<and> b < 192)"

fun utf8_decode :: "nat list \<Rightarrow> ustring option" where
  "utf8_decode [] = Some []"
| "utf8_decode (b # bs) =
     (if b < 128 then map_option ((#) b) (utf8_decode bs)
      else if 194 \<le> b \<and> b < 224 then
        (case bs of
           c1 # r \<Rightarrow>
             if continuation c1
             then map_option ((#) ((b - 192) * 64 + (c1 - 128))) (utf8_decode r)
             else None
         | _ \<Rightarrow> None)
      else if 224 \<le> b \<and> b < 240 then
        (case bs of
           c1 # c2 # r \<Rightarrow>
             if continuation c1 \<and> continuation c2
                \<and> (if b = 224 then 160 \<le> c1 else True)
                \<and> (if b = 237 then c1 < 160 else True)
             then map_option ((#) ((b - 224) * 4096 + (c1 - 128) * 64 + (c2 - 128)))
                    (utf8_decode r)
             else None
         | _ \<Rightarrow> None)
      else if 240 \<le> b \<and> b < 245 then
        (case bs of
           c1 # c2 # c3 # r \<Rightarrow>
             if continuation c1 \<and> continuation c2 \<and> continuation c3
                \<and> (if b = 240 then 144 \<le> c1 else True)
                \<and> (if b = 244 then c1 < 144 else True)
             then map_option
                    ((#) ((b - 240) * 262144 + (c1 - 128) * 4096 + (c2 - 128) * 64 + (c3 - 128)))
                    (utf8_decode r)
             else None
         | _ \<Rightarrow> None)
      else None)"

definition decode :: "string \<Rightarrow> ustring option" where
  "decode b = utf8_decode (map of_char b)"

text \<open>
  \<open>for label in attr_value\<close>: a one-dimensional array yields its elements, byte strings
  when that is its element type; an array of more dimensions yields its rows, which are
  arrays; a scalar byte string yields its bytes as integers and a scalar unicode string its
  characters; a scalar number cannot be iterated over (TypeError).
\<close>

definition iterated :: "nparray \<Rightarrow> array_item list option" where
  "iterated v =
     (case a_shape v of
        [] \<Rightarrow>
          (case a_dtype v of
             BytesS _ \<Rightarrow>
               Some (concat (map (\<lambda>x. case x of Bytes b \<Rightarrow> replicate (length b) NotBytes
                                         | _ \<Rightarrow> [])
                               (take 1 (a_items v))))
           | UnicodeU _ \<Rightarrow>
               Some (concat (map (\<lambda>x. case x of Text t \<Rightarrow> map (\<lambda>c. Text [c]) t
                                         | _ \<Rightarrow> [])
                               (take 1 (a_items v))))
           | _ \<Rightarrow> None)
      | [n] \<Rightarrow>
          Some (map (\<lambda>x. case a_dtype v of BytesS _ \<Rightarrow> x | _ \<Rightarrow> NotBytes)
                  (take n (a_items v)))
      | n # m # ms \<Rightarrow> Some (replicate n NotBytes))"

text \<open>
  \<open>[label.decode('utf-8') for label in attr_value]\<close>: what is no byte string has no
  \<open>decode\<close> (AttributeError), and a byte string that is not UTF-8 raises
  UnicodeDecodeError.
\<close>

fun decode_items :: "array_item list \<Rightarrow> error + ustring list" where
  "decode_items [] = Inr []"
| "decode_items (NotBytes # xs) = Inl AttributeError"
| "decode_items (Text t # xs) = Inl AttributeError"
| "decode_items (Bytes b # xs) =
     (case decode b of
        None \<Rightarrow> Inl UnicodeDecodeError
      | Some s \<Rightarrow>
          (case decode_items xs of
             Inl e \<Rightarrow> Inl e
           | Inr ss \<Rightarrow> Inr (s # ss)))"

definition decode_values :: "nparray \<Rightarrow> error + ustring list" where
  "decode_values v =
     (case iterated v of
        None \<Rightarrow> Inl TypeError
      | Some xs \<Rightarrow> decode_items xs)"

subsection \<open>print\_hdf5\_structure\<close>

text \<open>
  One value per call of \<open>print\<close>: the number of leading spaces and the fields of the line.
  \<^item> \<open>Header\<close>: \<open>HDF5 File Structure:\<close>
  \<^item> \<open>GroupLine i name\<close>: \<open>group: name/\<close>
  \<^item> \<open>DatasetLine i\<close>: \<open>dataset:\<close>
  \<^item> \<open>DatasetInfo i name shape dtype\<close>: \<open>name (shape: ..., dtype: ...)\<close>
  \<^item> \<open>AttributesLine i\<close>: \<open>attributes:\<close>
  \<^item> \<open>AttrInfo i name shape dtype\<close>: \<open>name: (shape=..., dtype=...)\<close>
  \<^item> \<open>ValuesLine i values\<close>: \<open>values: [...]\<close>
  The output of a call is the lines printed and the exception that ended it, if any.
\<close>

datatype line =
    Header
  | GroupLine nat string
  | DatasetLine nat
  | DatasetInfo nat string "nat list" dtype
  | AttributesLine nat
  | AttrInfo nat string "nat list" dtype
  | ValuesLine nat "ustring list"

type_synonym printed = "line list \<times> error option"

definition then_print :: "printed \<Rightarrow> printed \<Rightarrow> printed" where
  "then_print a b =
     (case a of
        (ls, Some e) \<Rightarrow> (ls, Some e)
      | (ls, None) \<Rightarrow> (ls @ fst b, snd b))"

text \<open>
  The children of a group: a group, a dataset, or something else (a named type), which
  the printer skips.
\<close>

datatype item = Group "(string \<times> item) list" | Dataset dataset | Other

text \<open>
  \<^verbatim>\<open>
  print(" " * (indent + 4) + f"{attr_name}: (shape={attr_value.shape}, dtype={attr_value.dtype})")
  if attr_value.size < 10:
      print(" " * (indent + 4) + f"values: {[label.decode('utf-8') for label in attr_value]}")
  \<close>
  A Python \<open>str\<close> has no \<open>shape\<close>: the first line is not printed, the call ends with
  AttributeError.
\<close>

definition print_array_attr :: "nat \<Rightarrow> string \<Rightarrow> nparray \<Rightarrow> printed" where
  "print_array_attr indent attr_name attr_value =
     then_print
       ([AttrInfo (indent + 4) attr_name (a_shape attr_value) (a_dtype attr_value)], None)
       (if a_size attr_value < 10
        then (case decode_values attr_value of
                Inl e \<Rightarrow> ([], Some e)
              | Inr values \<Rightarrow> ([ValuesLine (indent + 4) values], None))
        else ([], None))"

definition print_attr :: "nat \<Rightarrow> string \<times> attr_value \<Rightarrow> printed" where
  "print_attr indent kv =
     (case kv of
        (attr_name, StrValue s) \<Rightarrow> ([], Some AttributeError)
      | (attr_name, ArrayValue attr_value) \<Rightarrow> print_array_attr indent attr_name attr_value)"

fun print_attrs :: "nat \<Rightarrow> (string \<times> attr_value) list \<Rightarrow> printed" where
  "print_attrs indent [] = ([], None)"
| "print_attrs indent (kv # kvs) = then_print (print_attr indent kv) (print_attrs indent kvs)"

definition print_dataset :: "string \<Rightarrow> dataset \<Rightarrow> nat \<Rightarrow> printed" where
  "print_dataset name d indent =
     then_print
       ([DatasetLine indent, DatasetInfo (indent + 4) name (ds_shape d) (ds_dtype d)], None)
       (if length (ds_attrs d) > 0
        then then_print ([AttributesLine indent], None) (print_attrs indent (ds_attrs d))
        else ([], None))"

fun print_hdf5_structure :: "(string \<times> item) list \<Rightarrow> nat \<Rightarrow> printed"
  and print_children :: "(string \<times> item) list \<Rightarrow> nat \<Rightarrow> printed"
  and print_child :: "string \<Rightarrow> item \<Rightarrow> nat \<Rightarrow> printed" where
  "print_hdf5_structure group_items indent =
     then_print ([Header], None) (print_children group_items indent)"
| "print_children [] indent = ([], None)"
| "print_children ((name, item) # rest) indent =
     then_print (print_child name item indent) (print_children rest indent)"
| "print_child name (Group g) indent =
     then_print ([GroupLine indent name], None) (print_hdf5_structure g (indent + 2))"
| "print_child name (Dataset d) indent = print_dataset name d indent"
| "print_child name Other indent = ([], None)"

subsection \<open>Concrete attributes and stores\<close>

definition numeric_attr :: nparray where
  "numeric_attr =
     \<lparr>a_shape = [3], a_dtype = Int64, a_items = [NotBytes, NotBytes, NotBytes]\<rparr>"

definition accent_label :: nparray where
  "accent_label =
     \<lparr>a_shape = [1], a_dtype = BytesS 2, a_items = [Bytes [CHR 0xC3, CHR 0xA9]]\<rparr>"

definition matrix_label :: nparray where
  "matrix_label =
     \<lparr>a_shape = [2, 2], a_dtype = BytesS 1,
      a_items = [Bytes ''a'', Bytes ''b'', Bytes ''c'', Bytes ''d'']\<rparr>"

definition long_label :: nparray where
  "long_label =
     \<lparr>a_shape = [10], a_dtype = BytesS 1, a_items = replicate 10 (Bytes ''x'')\<rparr>"

definition column_data :: ndarray where
  "column_data = \<lparr>shape = [2, 1], elems = [7, 8]\<rparr>"

definition foreign_dataset :: dataset where
  "foreign_dataset = \<lparr>ds_shape = [2, 3], ds_chunks = [2, 3], ds_dtype = Float64,
     ds_data = replicate 6 (Cast Float64 0), ds_attrs = []\<rparr>"

definition foreign_store :: store where
  "foreign_store = fresh_store(''f.h5'' := H5File [''image'' \<mapsto> foreign_dataset])"

section \<open>Properties of the path resolver\<close>

declare find_from.simps [simp del]

declare ancestors.simps [simp del]

lemma ancestors_nonempty: "ancestors d \<noteq> []"
  by (subst ancestors.simps) simp

lemma butlast_ancestors_step:
  "d \<noteq> dirname d \<Longrightarrow> butlast (ancestors d) = d # butlast (ancestors (dirname d))"
  by (subst ancestors.simps) (simp add: ancestors_nonempty)

lemma butlast_ancestors_root:
  "d = dirname d \<Longrightarrow> butlast (ancestors d) = []"
  by (subst ancestors.simps) simp

text \<open>
  When the directories of the walk can be listed, the result is the nearest directory below
  the filesystem root that holds the marker, or FileNotFoundError when there is none.
\<close>

lemma find_from_walk:
  "\<forall>x\<in>set (butlast (ancestors d)). listdir s x \<noteq> None \<Longrightarrow>
   find_from s marker d =
     (case find (has_marker s marker) (butlast (ancestors d)) of
        Some r \<Rightarrow> Inr r
      | None \<Rightarrow> Inl FileNotFoundError)"
proof (induction s marker d rule: find_from.induct)
  case (1 s marker d)
  show ?case
  proof (cases "d = dirname d")
    case True
    then have "find_from s marker d = Inl FileNotFoundError"
      by (subst find_from.simps) simp
    with True show ?thesis
      by (simp add: butlast_ancestors_root)
  next
    case False
    then have bl: "butlast (ancestors d) = d # butlast (ancestors (dirname d))"
      by (rule butlast_ancestors_step)
    with "1.prems" obtain names where names: "listdir s d = Some names"
      by auto
    show ?thesis
    proof (cases "marker \<in> set names")
      case True
      with False names have "find_from s marker d = Inr d"
        by (subst find_from.simps) simp
      moreover from True names have "has_marker s marker d"
        by (simp add: has_marker_def)
      ultimately show ?thesis by (simp add: bl)
    next
      case notin: False
      with False names have "find_from s marker d = find_from s marker (dirname d)"
        by (subst find_from.simps) simp
      moreover from notin names have "\<not> has_marker s marker d"
        by (simp add: has_marker_def)
      moreover from "1.prems" bl
      have "\<forall>x\<in>set (butlast (ancestors (dirname d))). listdir s x \<noteq> None"
        by simp
      with "1.IH" False names notin
      have "find_from s marker (dirname d) =
        (case find (has_marker s marker) (butlast (ancestors (dirname d))) of
           Some r \<Rightarrow> Inr r | None \<Rightarrow> Inl FileNotFoundError)"
        by simp
      ultimately show ?thesis by (simp add: bl)
    qed
  qed
qed

lemma find_from_errors:
  "find_from s marker d = Inl e \<Longrightarrow> e = OSError \<or> e = FileNotFoundError"
proof (induction s marker d rule: find_from.induct)
  case (1 s marker d)
  from "1.prems" show ?case
    by (subst (asm) find_from.simps) (auto split: if_splits option.splits dest: "1.IH")
qed

lemma ancestors_example: "ancestors ''/p/a'' = [''/p/a'', ''/p'', ''/'']"
  by code_simp

text \<open>
  Claim C1 (nearest ancestor holding the marker). The loop stops as soon as the current
  directory is its own parent, so the filesystem root is never listed: with the working
  directory \<open>/a\<close> and the marker \<open>setup.cfg\<close> present in \<open>/\<close> only, the nearest
  ancestor holding the marker is \<open>/\<close>, and the function raises FileNotFoundError.
\<close>

theorem find_project_root_misses_filesystem_root:
  "find (has_marker root_marker_fs ''setup.cfg'') (ancestors (cwd root_marker_fs)) = Some ''/''
   \<and> find_project_root root_marker_fs ''setup.cfg'' = Inl FileNotFoundError"
  by code_simp

lemma find_from_not_found_iff:
  "find_from s marker d = Inl FileNotFoundError
     \<longleftrightarrow> (\<forall>x\<in>set (butlast (ancestors d)). lacks_marker s marker x)"
proof (induction s marker d rule: find_from.induct)
  case (1 s marker d)
  show ?case
  proof (cases "d = dirname d")
    case True
    then have "find_from s marker d = Inl FileNotFoundError"
      by (subst find_from.simps) simp
    with True show ?thesis by (simp add: butlast_ancestors_root)
  next
    case False
    then have bl: "butlast (ancestors d) = d # butlast (ancestors (dirname d))"
      by (rule butlast_ancestors_step)
    show ?thesis
    proof (cases "listdir s d")
      case None
      with False have "find_from s marker d = Inl OSError"
        by (subst find_from.simps) simp
      moreover from None have "\<not> lacks_marker s marker d"
        by (simp add: lacks_marker_def)
      ultimately show ?thesis by (simp add: bl)
    next
      case (Some names)
      show ?thesis
      proof (cases "marker \<in> set names")
        case True
        with False Some have "find_from s marker d = Inr d"
          by (subst find_from.simps) simp
        moreover from True Some have "\<not> lacks_marker s marker d"
          by (simp add: lacks_marker_def)
        ultimately show ?thesis by (simp add: bl)
      next
        case notin: False
        with False Some have "find_from s marker d = find_from s marker (dirname d)"
          by (subst find_from.simps) simp
        moreover from notin Some have "lacks_marker s marker d"
          by (simp add: lacks_marker_def)
        moreover from "1.IH" [OF False Some notin]
        have "find_from s marker (dirname d) = Inl FileNotFoundError
          \<longleftrightarrow> (\<forall>x\<in>set (butlast (ancestors (dirname d))). lacks_marker s marker x)" .
        ultimately show ?thesis by (simp add: bl)
      qed
    qed
  qed
qed

text \<open>
  Claim C2 (not found). FileNotFoundError is raised exactly when every directory of the
  walk below the filesystem root was listed without a match (the lemma above): the root
  itself, which closes the walk, is not among them. So the error is raised also when the
  marker is present on the path from the working directory up to and including the root:
  with the root as working directory and \<open>setup.cfg\<close> in it, the only directory of the
  walk holds the marker, the loop body never runs, and the function raises
  FileNotFoundError.
\<close>

theorem find_project_root_raises_in_marked_root:
  "ancestors (cwd root_cwd_fs) = [''/'']
   \<and> has_marker root_cwd_fs ''setup.cfg'' ''/''
   \<and> find_project_root root_cwd_fs ''setup.cfg'' = Inl FileNotFoundError"
  by code_simp

lemma resolve_cwd: "cwd s' = cwd s \<Longrightarrow> resolve s' p = resolve s p"
  by (simp add: resolve_def)

lemma self_in_prefixes_of: "c \<noteq> [] \<Longrightarrow> c \<in> set (prefixes_of c)"
proof -
  assume "c \<noteq> []"
  then have "length c \<in> set [1 ..< Suc (length c)]" by (cases c) auto
  then have "take (length c) c \<in> set (prefixes_of c)"
    unfolding prefixes_of_def by (simp only: set_map image_eqI)
  then show ?thesis by simp
qed

lemma makedirs_effect:
  assumes "makedirs s p = Inr s1"
  shows "cwd s1 = cwd s" and "git s1 = git s" and "files s1 = files s"
    and "is_dir s1 (resolve s1 p)"
proof -
  let ?c = "resolve s p"
  from assms have s1: "s1 = s\<lparr>dirs := dirs s @ filter (\<lambda>q. q \<notin> set (dirs s)) (prefixes_of ?c)\<rparr>"
    by (simp add: makedirs_def Let_def split: if_splits)
  from s1 show c: "cwd s1 = cwd s" by simp
  from s1 show "git s1 = git s" by simp
  from s1 show "files s1 = files s" by simp
  have r: "resolve s1 p = ?c" using c by (rule resolve_cwd)
  show "is_dir s1 (resolve s1 p)"
  proof (cases "?c = []")
    case True
    then show ?thesis by (simp add: r is_dir_def)
  next
    case False
    then have "?c \<in> set (prefixes_of ?c)" by (rule self_in_prefixes_of)
    then have "?c \<in> set (dirs s1)" by (auto simp: s1)
    then show ?thesis by (simp add: r is_dir_def)
  qed
qed

lemma resource_dir_twice:
  assumes first: "resource_dir category s name True = (Inr p, s1)"
    and stable: "(\<exists>r. git s = TopLevel r) \<or> gitdir s1 = gitdir s"
  shows "resource_dir category s1 name True = (Inr p, s1)"
    and "exists s1 p"
    and "is_dir s1 (resolve s1 p) \<or> is_file s (resolve s p)"
proof -
  from first obtain root where root: "gitdir s = Inr root"
    by (cases "gitdir s") (auto simp: resource_dir_def)
  let ?path = "join (join root category) name"
  have p: "p = ?path"
    using first root by (auto simp: resource_dir_def Let_def split: if_splits sum.splits)
  have step: "(exists s ?path \<and> s1 = s) \<or> (\<not> exists s ?path \<and> makedirs s ?path = Inr s1)"
    using first root by (auto simp: resource_dir_def Let_def split: if_splits sum.splits)
  have git1: "git s1 = git s"
    using step makedirs_effect(2) by blast
  have root1: "gitdir s1 = Inr root"
  proof -
    from stable show ?thesis
    proof
      assume "\<exists>r. git s = TopLevel r"
      then obtain r where r: "git s = TopLevel r" ..
      with root have "root = r" by (simp add: gitdir_def)
      with r git1 show ?thesis by (simp add: gitdir_def)
    next
      assume "gitdir s1 = gitdir s"
      with root show ?thesis by simp
    qed
  qed
  have ex1: "exists s1 ?path"
    using step makedirs_effect(4) by (auto simp: exists_def Let_def)
  from ex1 show "exists s1 p" by (simp add: p)
  from root1 ex1 show "resource_dir category s1 name True = (Inr p, s1)"
    by (simp add: resource_dir_def Let_def p)
  from step show "is_dir s1 (resolve s1 p) \<or> is_file s (resolve s p)"
  proof
    assume "exists s ?path \<and> s1 = s"
    then show ?thesis by (auto simp: exists_def Let_def p)
  next
    assume "\<not> exists s ?path \<and> makedirs s ?path = Inr s1"
    then have "is_dir s1 (resolve s1 ?path)" using makedirs_effect(4) by blast
    then show ?thesis by (simp add: p)
  qed
qed

text \<open>
  Claim C3 (two-tier fallback). gitdir returns the top-level directory when the
  version-control query succeeds; when the query fails with not-a-repository or
  path-does-not-exist it returns whatever find\_project\_root returns for the default
  marker; for every other outcome of the query the result does not depend on the directory
  tree, so the marker walk plays no part; and neither of the two version-control failures
  is ever what the caller gets.
\<close>

theorem gitdir_fallback_chain:
  "(\<forall>root. git s = TopLevel root \<longrightarrow> gitdir s = Inr root)
   \<and> (git s = NotARepository \<or> git s = NoSuchPath
        \<longrightarrow> gitdir s = find_project_root s default_marker)
   \<and> (git s \<noteq> NotARepository \<and> git s \<noteq> NoSuchPath
        \<longrightarrow> (\<forall>s'. git s' = git s \<longrightarrow> gitdir s' = gitdir s))
   \<and> gitdir s \<noteq> Inl InvalidGitRepositoryError
   \<and> gitdir s \<noteq> Inl NoSuchPathError"
proof -
  have a: "\<forall>root. git s = TopLevel root \<longrightarrow> gitdir s = Inr root"
    by (simp add: gitdir_def)
  have b: "git s = NotARepository \<or> git s = NoSuchPath
      \<longrightarrow> gitdir s = find_project_root s default_marker"
    by (auto simp: gitdir_def)
  have c: "git s \<noteq> NotARepository \<and> git s \<noteq> NoSuchPath
      \<longrightarrow> (\<forall>s'. git s' = git s \<longrightarrow> gitdir s' = gitdir s)"
    by (cases "git s") (auto simp: gitdir_def)
  have d: "gitdir s = Inl e \<Longrightarrow> e = OSError \<or> e = FileNotFoundError \<or> e = GitCommandError" for e
    by (cases "git s") (auto simp: gitdir_def find_project_root_def dest: find_from_errors)
  from d have e: "gitdir s \<noteq> Inl InvalidGitRepositoryError \<and> gitdir s \<noteq> Inl NoSuchPathError"
    by blast
  from a b c e show ?thesis by blast
qed

theorem gitdir_fallback_chain_witness:
  "gitdir (project_fs (TopLevel ''/p'')) = Inr ''/p''
   \<and> gitdir (project_fs NotARepository) = Inr ''/p''
   \<and> find_project_root (project_fs NotARepository) default_marker = Inr ''/p''
   \<and> gitdir (project_fs GitFailure) = gitdir (root_marker_fs\<lparr>git := GitFailure\<rparr>)"
proof -
  have g1: "git (project_fs (TopLevel ''/p'')) = TopLevel ''/p''"
    by (simp add: project_fs_def)
  have g2: "git (project_fs NotARepository) = NotARepository"
    by (simp add: project_fs_def)
  have g3: "git (project_fs GitFailure) \<noteq> NotARepository \<and> git (project_fs GitFailure) \<noteq> NoSuchPath"
    by (simp add: project_fs_def)
  have g4: "git (root_marker_fs\<lparr>git := GitFailure\<rparr>) = git (project_fs GitFailure)"
    by (simp add: project_fs_def)
  have f: "find_project_root (project_fs NotARepository) default_marker = Inr ''/p''"
    by code_simp
  from gitdir_fallback_chain [of "project_fs (TopLevel ''/p'')"] g1
  have "gitdir (project_fs (TopLevel ''/p'')) = Inr ''/p''" by blast
  moreover from gitdir_fallback_chain [of "project_fs NotARepository"] g2
  have "gitdir (project_fs NotARepository) = find_project_root (project_fs NotARepository) default_marker"
    by blast
  moreover from gitdir_fallback_chain [of "project_fs GitFailure"] g3 g4
  have "gitdir (project_fs GitFailure) = gitdir (root_marker_fs\<lparr>git := GitFailure\<rparr>)"
    by metis
  ultimately show ?thesis using f by simp
qed

text \<open>
  Claim C4, as stated, fails: the project root is resolved anew by every call. With no
  repository, the working directory \<open>/p/data/x\<close> and the marker in \<open>/p\<close>, the first
  call \<open>datadir('setup.cfg')\<close> creates \<open>/p/data/setup.cfg\<close>; the second call then finds
  the marker name in \<open>/p/data\<close>, returns another path and creates further directories.
\<close>

theorem datadir_reresolves_root_counterexample:
  "fst (datadir nested_fs ''setup.cfg'' True) = Inr ''/p/data/setup.cfg''
   \<and> fst (datadir (snd (datadir nested_fs ''setup.cfg'' True)) ''setup.cfg'' True)
        = Inr ''/p/data/data/setup.cfg''
   \<and> snd (datadir (snd (datadir nested_fs ''setup.cfg'' True)) ''setup.cfg'' True)
        \<noteq> snd (datadir nested_fs ''setup.cfg'' True)"
  by code_simp

text \<open>
  Claim C4, amended (idempotent creation). If the project root comes from version control,
  or resolves after the first call to what it resolved to before, then a first call of
  datadir (likewise plotsdir) that returns a path is followed by a second call that returns
  the same path and leaves the directory tree as it is; the path exists after the first
  call, as a directory unless a regular file was at that path before.
\<close>

theorem datadir_plotsdir_idempotent:
  assumes "(\<exists>r. git s = TopLevel r) \<or> gitdir s1 = gitdir s"
  shows "(datadir s name True = (Inr p, s1) \<longrightarrow>
            datadir s1 name True = (Inr p, s1) \<and> exists s1 p
            \<and> (is_dir s1 (resolve s1 p) \<or> is_file s (resolve s p)))
       \<and> (plotsdir s name True = (Inr p, s1) \<longrightarrow>
            plotsdir s1 name True = (Inr p, s1) \<and> exists s1 p
            \<and> (is_dir s1 (resolve s1 p) \<or> is_file s (resolve s p)))"
  unfolding datadir_def plotsdir_def
  using resource_dir_twice [OF _ assms] by blast

theorem datadir_plotsdir_idempotent_witness:
  "datadir (project_fs (TopLevel ''/p'')) ''example_directory'' True
     = (Inr ''/p/data/example_directory'',
        snd (datadir (project_fs (TopLevel ''/p'')) ''example_directory'' True))
   \<and> datadir (snd (datadir (project_fs (TopLevel ''/p'')) ''example_directory'' True))
        ''example_directory'' True
     = (Inr ''/p/data/example_directory'',
        snd (datadir (project_fs (TopLevel ''/p'')) ''example_directory'' True))
   \<and> exists (snd (datadir (project_fs (TopLevel ''/p'')) ''example_directory'' True))
        ''/p/data/example_directory''
   \<and> plotsdir (snd (plotsdir (project_fs (TopLevel ''/p'')) ''fig'' True)) ''fig'' True
     = (Inr ''/p/plots/fig'', snd (plotsdir (project_fs (TopLevel ''/p'')) ''fig'' True))"
proof -
  let ?s = "project_fs (TopLevel ''/p'')"
  have g: "(\<exists>r. git ?s = TopLevel r) \<or> gitdir s1 = gitdir ?s" for s1
    by (simp add: project_fs_def)
  have d: "datadir ?s ''example_directory'' True
      = (Inr ''/p/data/example_directory'', snd (datadir ?s ''example_directory'' True))"
    by code_simp
  have p: "plotsdir ?s ''fig'' True = (Inr ''/p/plots/fig'', snd (plotsdir ?s ''fig'' True))"
    by code_simp
  from datadir_plotsdir_idempotent [OF g, of "''example_directory''"
      "''/p/data/example_directory''"] d
  have "datadir (snd (datadir ?s ''example_directory'' True)) ''example_directory'' True
      = (Inr ''/p/data/example_directory'', snd (datadir ?s ''example_directory'' True))
    \<and> exists (snd (datadir ?s ''example_directory'' True)) ''/p/data/example_directory''"
    by blast
  moreover from datadir_plotsdir_idempotent [OF g, of "''fig''" "''/p/plots/fig''"] p
  have "plotsdir (snd (plotsdir ?s ''fig'' True)) ''fig'' True
      = (Inr ''/p/plots/fig'', snd (plotsdir ?s ''fig'' True))"
    by blast
  ultimately show ?thesis using d by simp
qed

section \<open>Properties of the container writer\<close>

lemma aligned_ok_refl: "aligned_ok s s"
  by (induction s) auto

lemma broadcastable_refl: "broadcastable s s"
  by (simp add: broadcastable_def aligned_ok_refl)

lemma pad_shape_same: "pad_shape s s = s"
  by (simp add: pad_shape_def)

lemma clamp_unravel: "map2 (\<lambda>s i. if s = 1 then 0 else i) s (unravel s k) = unravel s k"
  by (induction s) auto

lemma ravel_unravel: "ravel s (unravel s k) = k mod prod_list s"
proof (induction s)
  case Nil
  show ?case by simp
next
  case (Cons d ds)
  have "(k div prod_list ds) mod d * prod_list ds + k mod prod_list ds = k mod (d * prod_list ds)"
    by (metis mod_mult2_eq mult.commute add.commute)
  with Cons show ?case by simp
qed

lemma source_index_same: "k < prod_list s \<Longrightarrow> source_index s s k = k"
  unfolding source_index_def pad_shape_same clamp_unravel ravel_unravel by simp

lemma broadcast_elems_same:
  assumes "wf_array a"
  shows "broadcast_elems a (shape a) = elems a"
proof -
  have "broadcast_elems a (shape a) = map (\<lambda>k. elems a ! k) [0 ..< prod_list (shape a)]"
    unfolding broadcast_elems_def by (rule map_cong) (simp_all add: source_index_same)
  also have "\<dots> = elems a"
    using assms map_nth [of "elems a"] by (simp add: wf_array_def)
  finally show ?thesis .
qed

lemma setup_creates_in_new_file:
  assumes "st p = Missing True" and "chunked_layout_ok shp (1 # drop 1 shp)"
  shows "setup_hdf5_file st p name shp = (None, st(p := H5File [name \<mapsto> new_dataset shp]))"
proof -
  from assms(2) have ne: "shp \<noteq> []" by (simp add: chunked_layout_ok_def)
  from assms(1) have o: "open_append st p = Inr (st(p := H5File Map.empty), Map.empty)"
    by (simp add: open_append_def)
  from ne assms(2)
  have r: "require_dataset Map.empty name shp (1 # drop 1 shp) = Inr [name \<mapsto> new_dataset shp]"
    by (simp add: require_dataset_def new_dataset_def)
  show ?thesis using r by (simp add: setup_hdf5_file_def o)
qed

lemma setup_creates_in_existing_file:
  assumes "st p = H5File f" and "f name = None" and "chunked_layout_ok shp (1 # drop 1 shp)"
  shows "setup_hdf5_file st p name shp = (None, st(p := H5File (f(name \<mapsto> new_dataset shp))))"
proof -
  from assms(3) have ne: "shp \<noteq> []" by (simp add: chunked_layout_ok_def)
  from assms(1) have o: "open_append st p = Inr (st, f)"
    by (simp add: open_append_def)
  from ne assms(2,3)
  have r: "require_dataset f name shp (1 # drop 1 shp) = Inr (f(name \<mapsto> new_dataset shp))"
    by (simp add: require_dataset_def new_dataset_def)
  show ?thesis using r by (simp add: setup_hdf5_file_def o)
qed

lemma setup_reuses:
  assumes "st p = H5File f" and "f name = Some d" and "ds_shape d = shp"
    and "can_cast_float32 (ds_dtype d)"
  shows "setup_hdf5_file st p name shp = (None, st)"
proof -
  from assms(1) have o: "open_append st p = Inr (st, f)"
    by (simp add: open_append_def)
  from assms(2,3,4) have r: "require_dataset f name shp (1 # drop 1 shp) = Inr f"
    by (auto simp: require_dataset_def)
  from assms(1) have "st(p := H5File f) = st" by (metis fun_upd_triv)
  then show ?thesis using r by (simp add: setup_hdf5_file_def o)
qed

lemma setup_rejects_other_shape:
  assumes "st p = H5File f" and "f name = Some d" and "ds_shape d \<noteq> shp"
  shows "setup_hdf5_file st p name shp = (Some TypeError, st)"
proof -
  from assms(1) have o: "open_append st p = Inr (st, f)"
    by (simp add: open_append_def)
  from assms(2,3) have r: "require_dataset f name shp (1 # drop 1 shp) = Inl TypeError"
    by (auto simp: require_dataset_def)
  show ?thesis using r by (simp add: setup_hdf5_file_def o)
qed

lemma chunked_layout_leading_one:
  "chunked_layout_ok shp (1 # drop 1 shp) \<longleftrightarrow>
     shp \<noteq> [] \<and> length shp \<le> 32 \<and> (\<forall>d\<in>set shp. 0 < d) \<and> 4 * prod_list (drop 1 shp) < 2 ^ 32"
proof (cases shp)
  case Nil
  then show ?thesis by (simp add: chunked_layout_ok_def)
next
  case (Cons d ds)
  have "list_all2 (\<lambda>c d. 0 < c \<and> c \<le> d) ds ds \<longleftrightarrow> (\<forall>x\<in>set ds. 0 < x)"
    by (induction ds) auto
  with Cons show ?thesis
    by (auto simp: chunked_layout_ok_def)
qed

lemma layout_ok_nonempty:
  "chunked_layout_ok shp (1 # drop 1 shp) \<Longrightarrow> prod_list shp \<noteq> 0"
  unfolding chunked_layout_leading_one by (auto simp: prod_list_zero_iff)

lemma attrs_set_label:
  "\<forall>k. a_dtype l \<noteq> UnicodeU k \<Longrightarrow>
   attrs_set d ''label'' l =
     Inr (d\<lparr>ds_attrs := put_attr ''label'' (ArrayValue l) (ds_attrs d)\<rparr>)"
  by (cases "a_dtype l") (simp_all add: attrs_set_def)

lemma convertible_Float32: "convertible Float32"
  by (simp add: convertible_def)

lemma assign_all_ok:
  assumes "broadcastable (shape a) (ds_shape d)" and "prod_list (ds_shape d) \<noteq> 0"
    and "convertible (ds_dtype d)" and "prod_list (shape a) \<noteq> 0"
  shows "assign_all d a =
    Inr (d\<lparr>ds_data := map (to_cell (ds_dtype d)) (broadcast_elems a (ds_shape d))\<rparr>)"
  using assms by (simp add: assign_all_def)

lemma write_opened_ok:
  assumes "st p = H5File f" and "f n = Some d" and "prod_list (ds_shape d) \<noteq> 0"
    and "broadcastable (shape a) (ds_shape d)" and "\<forall>k. a_dtype l \<noteq> UnicodeU k"
    and "convertible (ds_dtype d)" and "prod_list (shape a) \<noteq> 0"
  shows "write_opened st p n a l =
    (None, st(p := H5File (f(n \<mapsto> stored d (broadcast_elems a (ds_shape d)) l))))"
proof -
  let ?d1 = "d\<lparr>ds_data := map (to_cell (ds_dtype d)) (broadcast_elems a (ds_shape d))\<rparr>"
  from assms(1) have o: "open_rw st p = Inr f" by (simp add: open_rw_def)
  from assms(4,3,6,7) have a: "assign_all d a = Inr ?d1"
    by (rule assign_all_ok)
  have s: "attrs_set ?d1 ''label'' l = Inr (stored d (broadcast_elems a (ds_shape d)) l)"
    using assms(5) by (simp add: attrs_set_label stored_def)
  show ?thesis by (simp add: write_opened_def o assms(2) a s)
qed

lemma write_opened_no_dataset:
  assumes "st p = H5File f" and "f n = None"
  shows "write_opened st p n a l = (Some KeyError, st)"
proof -
  from assms(1) have o: "open_rw st p = Inr f" by (simp add: open_rw_def)
  show ?thesis by (simp add: write_opened_def o assms(2))
qed

lemma write_existing: "path_exists st p \<Longrightarrow>
   write_data_and_label st p n a l = write_opened st p n a l"
  by (simp add: write_data_and_label_def)

lemma path_exists_H5File: "st p = H5File f \<Longrightarrow> path_exists st p"
  by (simp add: path_exists_def)

lemma write_new_file:
  assumes "st p = Missing True" and "chunked_layout_ok (shape a) (1 # drop 1 (shape a))"
    and "wf_array a" and "\<forall>k. a_dtype l \<noteq> UnicodeU k"
  shows "write_data_and_label st p n a l =
    (None, st(p := H5File [n \<mapsto> stored (new_dataset (shape a)) (elems a) l]))"
proof -
  let ?st1 = "st(p := H5File [n \<mapsto> new_dataset (shape a)])"
  from assms(1) have ne: "\<not> path_exists st p" by (simp add: path_exists_def)
  from assms(1,2) have su: "setup_hdf5_file st p n (shape a) = (None, ?st1)"
    by (rule setup_creates_in_new_file)
  have nz: "prod_list (ds_shape (new_dataset (shape a))) \<noteq> 0"
    using layout_ok_nonempty [OF assms(2)] by (simp add: new_dataset_def)
  have nza: "prod_list (shape a) \<noteq> 0"
    using assms(2) by (rule layout_ok_nonempty)
  have bc: "broadcastable (shape a) (ds_shape (new_dataset (shape a)))"
    by (simp add: new_dataset_def broadcastable_refl)
  have cv: "convertible (ds_dtype (new_dataset (shape a)))"
    by (simp add: new_dataset_def convertible_def)
  have "write_opened ?st1 p n a l =
      (None, ?st1(p := H5File ([n \<mapsto> new_dataset (shape a)]
         (n \<mapsto> stored (new_dataset (shape a))
            (broadcast_elems a (ds_shape (new_dataset (shape a)))) l))))"
    by (rule write_opened_ok [OF _ _ nz bc assms(4) cv nza]) simp_all
  moreover have "broadcast_elems a (ds_shape (new_dataset (shape a))) = elems a"
    using broadcast_elems_same [OF assms(3)] by (simp add: new_dataset_def)
  ultimately have "write_opened ?st1 p n a l =
      (None, st(p := H5File [n \<mapsto> stored (new_dataset (shape a)) (elems a) l]))"
    by simp
  with ne su show ?thesis by (simp add: write_data_and_label_def)
qed

lemma setup_other_paths: "q \<noteq> p \<Longrightarrow> snd (setup_hdf5_file st p n shp) q = st q"
  by (auto simp: setup_hdf5_file_def open_append_def split: node.splits sum.splits prod.splits)

lemma write_opened_other_paths: "q \<noteq> p \<Longrightarrow> snd (write_opened st p n a l) q = st q"
  by (auto simp: write_opened_def split: sum.splits option.splits)

lemma write_other_paths: "q \<noteq> p \<Longrightarrow> snd (write_data_and_label st p n a l) q = st q"
proof -
  assume q: "q \<noteq> p"
  show ?thesis
  proof (cases "path_exists st p")
    case True
    with q show ?thesis by (simp add: write_existing write_opened_other_paths)
  next
    case False
    obtain r st1 where su: "setup_hdf5_file st p n (shape a) = (r, st1)"
      by (cases "setup_hdf5_file st p n (shape a)")
    from setup_other_paths [OF q, of st n "shape a"] su have st1: "st1 q = st q" by simp
    show ?thesis
    proof (cases r)
      case None
      with False su st1 q show ?thesis
        by (simp add: write_data_and_label_def write_opened_other_paths)
    next
      case (Some e)
      with False su st1 show ?thesis by (simp add: write_data_and_label_def)
    qed
  qed
qed

lemma example_data_wf: "wf_array example_data"
  by (simp add: wf_array_def example_data_def)

lemma example_row_wf: "wf_array example_row"
  by (simp add: wf_array_def example_row_def)

lemma example_label_storable: "\<forall>k. a_dtype example_label \<noteq> UnicodeU k"
  by (simp add: example_label_def)

lemma example_layout: "chunked_layout_ok [2, 3] (1 # drop 1 [2, 3])"
  by (simp add: chunked_layout_ok_def)

lemma example_store_file:
  "example_store ''f.h5'' = H5File [''image'' \<mapsto> new_dataset [2, 3]]"
  by (simp add: example_store_def)

text \<open>
  Claim C10 (existing file without the dataset). If the container file exists and holds no
  dataset of the given name, write\_data\_and\_label raises the lookup error KeyError and
  leaves the store as it was: the dataset is not created.
\<close>

theorem write_missing_dataset_raises:
  assumes "st p = H5File f" and "f n = None"
  shows "write_data_and_label st p n data_array label_array = (Some KeyError, st)"
proof -
  from assms(1) have "path_exists st p" by (rule path_exists_H5File)
  then have "write_data_and_label st p n data_array label_array =
      write_opened st p n data_array label_array"
    by (rule write_existing)
  also from assms have "\<dots> = (Some KeyError, st)" by (rule write_opened_no_dataset)
  finally show ?thesis .
qed

theorem write_missing_dataset_raises_witness:
  "write_data_and_label example_store ''f.h5'' ''other'' example_data example_label =
     (Some KeyError, example_store)
   \<and> example_store ''f.h5'' = H5File [''image'' \<mapsto> new_dataset [2, 3]]
   \<and> [''image'' \<mapsto> new_dataset [2, 3]] ''other'' = None"
proof -
  have n: "[''image'' \<mapsto> new_dataset [2, 3]] ''other'' = None" by simp
  from write_missing_dataset_raises [where st = example_store and p = "''f.h5''"
      and f = "[''image'' \<mapsto> new_dataset [2, 3]]" and n = "''other''",
      OF example_store_file n]
    example_store_file n
  show ?thesis by simp
qed

text \<open>
  Claim C6, as stated, fails. On a file that already holds a dataset of the requested shape
  with another chunking and element type (chunks \<open>(2, 3)\<close>, 64-bit float), the call returns
  normally and leaves that dataset as it is. And not every shape tuple is accepted for a new
  dataset: for the scalar shape \<open>()\<close> the chunk shape \<open>(1,)\<close> is refused by the container
  library, and for a leading dimension 0 the chunk is larger than the dataset; the file is
  then created and left without the dataset.
\<close>

theorem setup_hdf5_file_existing_layout_counterexample:
  "setup_hdf5_file foreign_store ''f.h5'' ''image'' [2, 3] = (None, foreign_store)
   \<and> foreign_store ''f.h5'' = H5File [''image'' \<mapsto> foreign_dataset]
   \<and> ds_chunks foreign_dataset \<noteq> 1 # drop 1 [2, 3]
   \<and> ds_dtype foreign_dataset \<noteq> Float32
   \<and> setup_hdf5_file fresh_store ''f.h5'' ''image'' [] =
     (Some TypeError, fresh_store(''f.h5'' := H5File Map.empty))
   \<and> setup_hdf5_file fresh_store ''f.h5'' ''image'' [0, 3] =
     (Some ValueError, fresh_store(''f.h5'' := H5File Map.empty))"
proof -
  have f: "foreign_store ''f.h5'' = H5File [''image'' \<mapsto> foreign_dataset]"
    by (simp add: foreign_store_def)
  have "setup_hdf5_file foreign_store ''f.h5'' ''image'' [2, 3] = (None, foreign_store)"
    by (rule setup_reuses [where f = "[''image'' \<mapsto> foreign_dataset]" and d = foreign_dataset])
      (simp_all add: f foreign_dataset_def can_cast_float32_def)
  moreover have "ds_chunks foreign_dataset \<noteq> 1 # drop 1 [2, 3]"
    and "ds_dtype foreign_dataset \<noteq> Float32"
    by (simp_all add: foreign_dataset_def)
  moreover have "setup_hdf5_file fresh_store ''f.h5'' ''image'' [] =
      (Some TypeError, fresh_store(''f.h5'' := H5File Map.empty))"
    and "setup_hdf5_file fresh_store ''f.h5'' ''image'' [0, 3] =
      (Some ValueError, fresh_store(''f.h5'' := H5File Map.empty))"
    by (simp_all add: setup_hdf5_file_def open_append_def fresh_store_def require_dataset_def
        chunked_layout_ok_def)
  ultimately show ?thesis using f by (intro conjI)
qed

text \<open>
  Claim C6, amended (setup). For every shape that admits the chunked layout (rank between
  1 and 32, positive dimensions, one leading-axis slice below 4 GiB): when the file is
  missing and can be created, or exists without the dataset, setup\_hdf5\_file leaves the file
  with a dataset of exactly that shape, chunk shape \<open>(1, *shape[1:])\<close> and element type
  32-bit float, and calling it again with the same shape changes nothing. On an existing
  dataset of the same shape whose element type 32-bit floats cast to, the call is a no-op
  (the dataset keeps the chunking and element type it has); on an existing dataset of a
  different shape it raises TypeError and changes nothing.
\<close>

theorem setup_hdf5_file_ensures:
  "(((st p = Missing True \<and> f = Map.empty) \<or> (st p = H5File f \<and> f n = None))
      \<and> chunked_layout_ok shp (1 # drop 1 shp)
      \<longrightarrow> setup_hdf5_file st p n shp = (None, st(p := H5File (f(n \<mapsto> new_dataset shp))))
          \<and> setup_hdf5_file (st(p := H5File (f(n \<mapsto> new_dataset shp)))) p n shp =
              (None, st(p := H5File (f(n \<mapsto> new_dataset shp)))))
   \<and> ds_shape (new_dataset shp) = shp
   \<and> ds_chunks (new_dataset shp) = 1 # drop 1 shp
   \<and> ds_dtype (new_dataset shp) = Float32
   \<and> (st p = H5File f \<and> f n = Some d \<and> ds_shape d = shp \<and> can_cast_float32 (ds_dtype d)
      \<longrightarrow> setup_hdf5_file st p n shp = (None, st))
   \<and> (st p = H5File f \<and> f n = Some d \<and> ds_shape d \<noteq> shp
      \<longrightarrow> setup_hdf5_file st p n shp = (Some TypeError, st))"
proof -
  let ?st1 = "st(p := H5File (f(n \<mapsto> new_dataset shp)))"
  have again: "setup_hdf5_file ?st1 p n shp = (None, ?st1)"
    by (rule setup_reuses [where f = "f(n \<mapsto> new_dataset shp)" and d = "new_dataset shp"])
      (simp_all add: new_dataset_def can_cast_float32_def)
  have create: "((st p = Missing True \<and> f = Map.empty) \<or> (st p = H5File f \<and> f n = None))
      \<and> chunked_layout_ok shp (1 # drop 1 shp)
      \<longrightarrow> setup_hdf5_file st p n shp = (None, ?st1)"
    using setup_creates_in_new_file [of st p shp n]
      setup_creates_in_existing_file [of st p f n shp]
    by auto
  have fields: "ds_shape (new_dataset shp) = shp
      \<and> ds_chunks (new_dataset shp) = 1 # drop 1 shp \<and> ds_dtype (new_dataset shp) = Float32"
    by (simp add: new_dataset_def)
  have reuse: "st p = H5File f \<and> f n = Some d \<and> ds_shape d = shp
      \<and> can_cast_float32 (ds_dtype d) \<longrightarrow> setup_hdf5_file st p n shp = (None, st)"
    using setup_reuses [of st p f n d shp] by blast
  have reject: "st p = H5File f \<and> f n = Some d \<and> ds_shape d \<noteq> shp
      \<longrightarrow> setup_hdf5_file st p n shp = (Some TypeError, st)"
    using setup_rejects_other_shape [of st p f n d shp] by blast
  from again create fields reuse reject show ?thesis by blast
qed

theorem setup_hdf5_file_ensures_witness:
  "setup_hdf5_file fresh_store ''f.h5'' ''image'' [2, 3] = (None, example_store)
   \<and> setup_hdf5_file example_store ''f.h5'' ''image'' [2, 3] = (None, example_store)
   \<and> setup_hdf5_file example_store ''f.h5'' ''image'' [4, 3] = (Some TypeError, example_store)"
proof -
  have m: "(fresh_store ''f.h5'' = Missing True \<and> (Map.empty :: h5file) = Map.empty)
      \<and> chunked_layout_ok [2, 3] (1 # drop 1 [2, 3])"
    using example_layout by (simp add: fresh_store_def)
  have e: "example_store = fresh_store(''f.h5'' := H5File [''image'' \<mapsto> new_dataset [2, 3]])"
    by (simp add: example_store_def)
  have x: "example_store ''f.h5'' = H5File [''image'' \<mapsto> new_dataset [2, 3]]
      \<and> [''image'' \<mapsto> new_dataset [2, 3]] ''image'' = Some (new_dataset [2, 3])
      \<and> ds_shape (new_dataset [2, 3]) \<noteq> [4, 3]"
    by (simp add: example_store_file new_dataset_def)
  from setup_hdf5_file_ensures [where st = fresh_store and p = "''f.h5''" and f = Map.empty
      and n = "''image''" and shp = "[2, 3]"] m
  have "setup_hdf5_file fresh_store ''f.h5'' ''image'' [2, 3] = (None, example_store)
      \<and> setup_hdf5_file example_store ''f.h5'' ''image'' [2, 3] = (None, example_store)"
    unfolding e by blast
  moreover
  from setup_hdf5_file_ensures [where st = example_store and p = "''f.h5''"
      and f = "[''image'' \<mapsto> new_dataset [2, 3]]" and n = "''image''"
      and d = "new_dataset [2, 3]" and shp = "[4, 3]"] x
  have "setup_hdf5_file example_store ''f.h5'' ''image'' [4, 3] = (Some TypeError, example_store)"
    by blast
  ultimately show ?thesis by blast
qed

lemma assign_all_layout:
  "assign_all d a = Inr d1 \<Longrightarrow>
     ds_shape d1 = ds_shape d \<and> ds_chunks d1 = ds_chunks d \<and> ds_dtype d1 = ds_dtype d"
  by (auto simp: assign_all_def split: if_splits)

lemma map_of_insort_new:
  "k \<notin> fst ` set xs \<Longrightarrow> map_of (insort_key fst (k, v) xs) k = Some v"
  by (induction xs) auto

lemma map_of_replaced: "map_of (put_attr k v xs) k = Some v"
  unfolding put_attr_def by (rule map_of_insort_new) auto

lemma attrs_set_layout:
  "attrs_set d k v = Inr d1 \<Longrightarrow>
     ds_shape d1 = ds_shape d \<and> ds_chunks d1 = ds_chunks d \<and> ds_dtype d1 = ds_dtype d
     \<and> ds_data d1 = ds_data d \<and> map_of (ds_attrs d1) k = Some (ArrayValue v)"
  by (cases "a_dtype v") (auto simp: attrs_set_def map_of_replaced)

lemma write_opened_keeps_layout:
  assumes "st p = H5File f" and "f n = Some d"
  shows "\<exists>f' d'. snd (write_opened st p n a l) p = H5File f' \<and> f' n = Some d'
      \<and> ds_shape d' = ds_shape d \<and> ds_chunks d' = ds_chunks d"
proof -
  from assms(1) have o: "open_rw st p = Inr f" by (simp add: open_rw_def)
  show ?thesis
  proof (cases "assign_all d a")
    case (Inl e)
    with assms o show ?thesis by (simp add: write_opened_def)
  next
    case (Inr d1)
    note d1 = assign_all_layout [OF Inr]
    show ?thesis
    proof (cases "attrs_set d1 ''label'' l")
      case (Inl e)
      with assms o Inr d1 show ?thesis by (simp add: write_opened_def)
    next
      case inr2: (Inr d2)
      from attrs_set_layout [OF inr2] d1
      have "ds_shape d2 = ds_shape d \<and> ds_chunks d2 = ds_chunks d" by simp
      with assms o Inr inr2 show ?thesis by (simp add: write_opened_def)
    qed
  qed
qed

lemma setup_existing_unchanged:
  assumes "st p = H5File f" and "f n = Some d"
  shows "snd (setup_hdf5_file st p n shp) = st"
proof -
  from assms(1) have o: "open_append st p = Inr (st, f)" by (simp add: open_append_def)
  from assms(1) have t: "st(p := H5File f) = st" by (metis fun_upd_triv)
  from assms(2) have "require_dataset f n shp (1 # drop 1 shp) = Inr f
      \<or> (\<exists>e. require_dataset f n shp (1 # drop 1 shp) = Inl e)"
    by (simp add: require_dataset_def)
  with t show ?thesis by (auto simp: setup_hdf5_file_def o)
qed

lemma write_opened_rejects:
  assumes "st p = H5File f" and "f n = Some d"
    and "\<not> broadcastable (shape a) (ds_shape d)"
  shows "write_opened st p n a l = (Some TypeError, st)"
proof -
  from assms(1) have o: "open_rw st p = Inr f" by (simp add: open_rw_def)
  from assms(3) have "assign_all d a = Inl TypeError" by (simp add: assign_all_def)
  with o assms(2) show ?thesis by (simp add: write_opened_def)
qed

lemma write_opened_success:
  assumes "write_opened st p n a l = (None, st')"
  shows "\<exists>f d d1 d2. st p = H5File f \<and> f n = Some d \<and> assign_all d a = Inr d1
      \<and> attrs_set d1 ''label'' l = Inr d2 \<and> st' = st(p := H5File (f(n \<mapsto> d2)))"
  using assms
  by (auto simp: write_opened_def open_rw_def split: node.splits option.splits sum.splits)

lemma assign_same_shape:
  assumes "wf_array a" and "ds_shape d = shape a" and "ds_dtype d = Float32"
    and "length (ds_data d) = prod_list (ds_shape d)" and "assign_all d a = Inr d1"
  shows "ds_data d1 = map F32 (elems a)"
proof (cases "prod_list (ds_shape d) = 0")
  case True
  with assms(2,5) have "d1 = d" by (simp add: assign_all_def broadcastable_refl)
  with True assms(1,2,4) show ?thesis by (simp add: wf_array_def)
next
  case False
  with assms(2) have "prod_list (shape a) \<noteq> 0" by simp
  with False assms(2,3,5)
  have "ds_data d1 = map (to_cell Float32) (broadcast_elems a (ds_shape d))"
    by (auto simp: assign_all_def broadcastable_refl convertible_def)
  moreover have "to_cell Float32 = F32"
    by (rule ext) (simp add: to_cell_def)
  ultimately show ?thesis using assms(1,2) by (simp add: broadcast_elems_same)
qed

lemma read_after_update:
  "read_dataset (st(p := H5File (f(n \<mapsto> d)))) p n =
     Inr \<lparr>r_shape = ds_shape d, r_dtype = ds_dtype d, r_cells = ds_data d\<rparr>"
  "read_label (st(p := H5File (f(n \<mapsto> d)))) p n =
     (case map_of (ds_attrs d) ''label'' of None \<Rightarrow> Inl KeyError | Some v \<Rightarrow> Inr v)"
  by (simp_all add: read_dataset_def read_label_def open_rw_def)

lemma round_trip_opened:
  assumes "wf_array a" and "st p = H5File f" and "f n = Some d" and "ds_shape d = shape a"
    and "ds_dtype d = Float32" and "length (ds_data d) = prod_list (ds_shape d)"
    and "write_opened st p n a l = (None, st')"
  shows "read_dataset st' p n = Inr (float32_array a)
       \<and> read_label st' p n = Inr (ArrayValue l)"
proof -
  from write_opened_success [OF assms(7)] assms(2,3)
  obtain d1 d2 where a1: "assign_all d a = Inr d1"
    and a2: "attrs_set d1 ''label'' l = Inr d2"
    and st': "st' = st(p := H5File (f(n \<mapsto> d2)))"
    by auto
  from assign_same_shape [OF assms(1,4,5,6) a1] have data: "ds_data d1 = map F32 (elems a)" .
  from assign_all_layout [OF a1] assms(4,5)
  have shp: "ds_shape d1 = shape a" and ty: "ds_dtype d1 = Float32" by simp_all
  from attrs_set_layout [OF a2] data shp ty
  have "ds_shape d2 = shape a" and "ds_dtype d2 = Float32" and "ds_data d2 = map F32 (elems a)"
    and "map_of (ds_attrs d2) ''label'' = Some (ArrayValue l)"
    by simp_all
  then show ?thesis by (simp add: st' read_after_update float32_array_def)
qed

lemma read_dataset_Inr:
  assumes "read_dataset st p n = Inr r"
  shows "\<exists>f d. st p = H5File f \<and> f n = Some d \<and> ds_shape d = r_shape r
      \<and> ds_dtype d = r_dtype r \<and> ds_data d = r_cells r"
  using assms
  by (auto simp: read_dataset_def open_rw_def split: node.splits option.splits)

text \<open>
  Claim C8, as stated, fails in its last part: an array whose shape differs from the
  dataset's is accepted when it can be broadcast. A row of shape \<open>(3,)\<close> written to the
  dataset of shape \<open>(2, 3)\<close> raises nothing.
\<close>

theorem write_other_shape_accepted_counterexample:
  "shape example_row \<noteq> ds_shape (new_dataset [2, 3])
   \<and> example_store ''f.h5'' = H5File [''image'' \<mapsto> new_dataset [2, 3]]
   \<and> fst (write_data_and_label example_store ''f.h5'' ''image'' example_row example_label) = None"
proof -
  have "path_exists example_store ''f.h5''"
    by (simp add: example_store_file path_exists_H5File)
  then have "write_data_and_label example_store ''f.h5'' ''image'' example_row example_label =
      write_opened example_store ''f.h5'' ''image'' example_row example_label"
    by (rule write_existing)
  also have "fst \<dots> = None"
    by (simp add: write_opened_def open_rw_def example_store_file assign_all_def
        new_dataset_def example_row_def broadcastable_def convertible_def attrs_set_def
        example_label_def)
  finally show ?thesis
    by (simp add: example_store_file new_dataset_def example_row_def)
qed

text \<open>
  Claim C8, amended (overwrite, fixed layout). When a dataset reads back as the float32
  array of a first write (so the dataset holds float32 elements), a second successful write
  of an array of the same shape leaves the second array (and the second label) as what is
  read back. No call of write\_data\_and\_label or
  setup\_hdf5\_file, successful or not, alters the shape or the chunking of an existing
  dataset. Writing to a non-empty dataset a non-empty array whose shape cannot be broadcast
  to the dataset's shape raises the library's TypeError and changes nothing.
\<close>

theorem write_overwrites_keeps_layout:
  "(wf_array a1 \<and> wf_array a2 \<and> shape a2 = shape a1
      \<and> write_data_and_label st0 p n a1 l1 = (None, st1)
      \<and> read_dataset st1 p n = Inr (float32_array a1)
      \<and> write_data_and_label st1 p n a2 l2 = (None, st2)
      \<longrightarrow> read_dataset st2 p n = Inr (float32_array a2)
          \<and> read_label st2 p n = Inr (ArrayValue l2))
   \<and> (st p = H5File f \<and> f n = Some d
      \<longrightarrow> (\<exists>f' d'. snd (write_data_and_label st p n a l) p = H5File f' \<and> f' n = Some d'
              \<and> ds_shape d' = ds_shape d \<and> ds_chunks d' = ds_chunks d)
          \<and> snd (setup_hdf5_file st p n shp) = st)
   \<and> (st p = H5File f \<and> f n = Some d \<and> prod_list (ds_shape d) \<noteq> 0
        \<and> prod_list (shape a) \<noteq> 0 \<and> \<not> broadcastable (shape a) (ds_shape d)
      \<longrightarrow> write_data_and_label st p n a l = (Some TypeError, st))"
proof -
  have overwrite: "read_dataset st2 p n = Inr (float32_array a2)
      \<and> read_label st2 p n = Inr (ArrayValue l2)"
    if wf1: "wf_array a1" and wf2: "wf_array a2" and same: "shape a2 = shape a1"
      and r1: "read_dataset st1 p n = Inr (float32_array a1)"
      and w2: "write_data_and_label st1 p n a2 l2 = (None, st2)"
  proof -
    from read_dataset_Inr [OF r1] obtain f1 d1 where f1: "st1 p = H5File f1"
      and d1: "f1 n = Some d1" and s1: "ds_shape d1 = shape a1"
      and t1: "ds_dtype d1 = Float32" and e1: "ds_data d1 = map F32 (elems a1)"
      by (auto simp: float32_array_def)
    from f1 have "path_exists st1 p" by (rule path_exists_H5File)
    with w2 have wo: "write_opened st1 p n a2 l2 = (None, st2)"
      by (simp add: write_existing)
    from s1 same have s2: "ds_shape d1 = shape a2" by simp
    from wf1 s1 e1 have len: "length (ds_data d1) = prod_list (ds_shape d1)"
      by (simp add: wf_array_def)
    from wf2 f1 d1 s2 t1 len wo show ?thesis by (rule round_trip_opened)
  qed
  have layout: "(\<exists>f' d'. snd (write_data_and_label st p n a l) p = H5File f' \<and> f' n = Some d'
        \<and> ds_shape d' = ds_shape d \<and> ds_chunks d' = ds_chunks d)
      \<and> snd (setup_hdf5_file st p n shp) = st"
    if f: "st p = H5File f" and d: "f n = Some d"
  proof -
    from f have "path_exists st p" by (rule path_exists_H5File)
    then have "write_data_and_label st p n a l = write_opened st p n a l"
      by (rule write_existing)
    moreover have "\<exists>f' d'. snd (write_opened st p n a l) p = H5File f' \<and> f' n = Some d'
        \<and> ds_shape d' = ds_shape d \<and> ds_chunks d' = ds_chunks d"
      using f d by (rule write_opened_keeps_layout)
    moreover have "snd (setup_hdf5_file st p n shp) = st"
      using f d by (rule setup_existing_unchanged)
    ultimately show ?thesis by simp
  qed
  have reject: "write_data_and_label st p n a l = (Some TypeError, st)"
    if f: "st p = H5File f" and d: "f n = Some d" and nz: "prod_list (ds_shape d) \<noteq> 0"
      and nb: "\<not> broadcastable (shape a) (ds_shape d)"
  proof -
    from f have "path_exists st p" by (rule path_exists_H5File)
    then have "write_data_and_label st p n a l = write_opened st p n a l"
      by (rule write_existing)
    moreover have "write_opened st p n a l = (Some TypeError, st)"
      using f d nb by (rule write_opened_rejects)
    ultimately show ?thesis by simp
  qed
  from overwrite layout reject show ?thesis by blast
qed

lemma example_data2_wf: "wf_array example_data2"
  by (simp add: wf_array_def example_data2_def)

lemma first_write_example:
  "write_data_and_label fresh_store ''f.h5'' ''image'' example_data example_label =
     (None, fresh_store(''f.h5'' := H5File [''image'' \<mapsto>
        stored (new_dataset [2, 3]) [1, 2, 3, 4, 5, 6] example_label]))"
proof -
  have "write_data_and_label fresh_store ''f.h5'' ''image'' example_data example_label =
     (None, fresh_store(''f.h5'' := H5File [''image'' \<mapsto>
        stored (new_dataset (shape example_data)) (elems example_data) example_label]))"
    using example_layout
    by (intro write_new_file example_data_wf example_label_storable)
      (simp_all add: fresh_store_def example_data_def)
  then show ?thesis by (simp add: example_data_def)
qed

theorem write_overwrites_keeps_layout_witness:
  "read_dataset
     (snd (write_data_and_label
        (snd (write_data_and_label fresh_store ''f.h5'' ''image'' example_data example_label))
        ''f.h5'' ''image'' example_data2 example_label))
     ''f.h5'' ''image'' = Inr (float32_array example_data2)
   \<and> write_data_and_label example_store ''f.h5'' ''image'' example_square example_label =
       (Some TypeError, example_store)
   \<and> snd (setup_hdf5_file example_store ''f.h5'' ''image'' [4, 3]) = example_store"
proof -
  let ?d1 = "stored (new_dataset [2, 3]) [1, 2, 3, 4, 5, 6] example_label"
  let ?st1 = "fresh_store(''f.h5'' := H5File [''image'' \<mapsto> ?d1])"
  let ?w2 = "write_data_and_label ?st1 ''f.h5'' ''image'' example_data2 example_label"
  have w1: "write_data_and_label fresh_store ''f.h5'' ''image'' example_data example_label =
      (None, ?st1)"
    by (rule first_write_example)
  have r1: "read_dataset ?st1 ''f.h5'' ''image'' = Inr (float32_array example_data)"
    by (simp add: read_after_update stored_def new_dataset_def example_data_def
        float32_array_def to_cell_def)
  have "path_exists ?st1 ''f.h5''" by (simp add: path_exists_def)
  then have "?w2 = write_opened ?st1 ''f.h5'' ''image'' example_data2 example_label"
    by (rule write_existing)
  also have "fst \<dots> = None"
    by (simp add: write_opened_def open_rw_def assign_all_def stored_def new_dataset_def
        example_data2_def broadcastable_def convertible_def attrs_set_def example_label_def)
  finally have w2: "?w2 = (None, snd ?w2)"
    by (simp add: prod_eq_iff)
  have same: "shape example_data2 = shape example_data"
    by (simp add: example_data_def example_data2_def)
  from write_overwrites_keeps_layout [where ?a1.0 = example_data and ?a2.0 = example_data2
      and ?st0.0 = fresh_store and p = "''f.h5''" and n = "''image''" and ?l1.0 = example_label
      and ?st1.0 = ?st1 and ?l2.0 = example_label and ?st2.0 = "snd ?w2"]
    example_data_wf example_data2_wf same w1 r1 w2
  have a: "read_dataset (snd ?w2) ''f.h5'' ''image'' = Inr (float32_array example_data2)"
    by blast
  have x: "example_store ''f.h5'' = H5File [''image'' \<mapsto> new_dataset [2, 3]]
      \<and> [''image'' \<mapsto> new_dataset [2, 3]] ''image'' = Some (new_dataset [2, 3])
      \<and> prod_list (ds_shape (new_dataset [2, 3])) \<noteq> 0
      \<and> prod_list (shape example_square) \<noteq> 0
      \<and> \<not> broadcastable (shape example_square) (ds_shape (new_dataset [2, 3]))"
    by (simp add: example_store_file new_dataset_def example_square_def broadcastable_def)
  from write_overwrites_keeps_layout [where st = example_store and p = "''f.h5''"
      and n = "''image''" and f = "[''image'' \<mapsto> new_dataset [2, 3]]"
      and d = "new_dataset [2, 3]" and a = example_square and l = example_label
      and shp = "[4, 3]"] x
  have b: "write_data_and_label example_store ''f.h5'' ''image'' example_square example_label =
       (Some TypeError, example_store)
     \<and> snd (setup_hdf5_file example_store ''f.h5'' ''image'' [4, 3]) = example_store"
    by blast
  from a b show ?thesis by (simp add: w1)
qed

section \<open>Round trip and effect of the writer\<close>

lemma setup_success_new:
  assumes "\<not> path_exists st p" and "setup_hdf5_file st p n shp = (None, st1)"
  shows "st1 = st(p := H5File [n \<mapsto> new_dataset shp])"
  using assms
  by (auto simp: path_exists_def setup_hdf5_file_def open_append_def require_dataset_def
      new_dataset_def split: node.splits if_splits)

lemma length_new_dataset:
  "length (ds_data (new_dataset shp)) = prod_list (ds_shape (new_dataset shp))"
  by (simp add: new_dataset_def)

lemma decode_items_bytes:
  "map decode bs = map Some ss \<Longrightarrow> decode_items (map Bytes bs) = Inr ss"
proof (induction bs arbitrary: ss)
  case Nil
  then show ?case by simp
next
  case (Cons b bs)
  from Cons.prems obtain s ss' where ss: "ss = s # ss'" and s: "decode b = Some s"
    and rest: "map decode bs = map Some ss'"
    by (cases ss) auto
  from Cons.IH [OF rest] s ss show ?case by simp
qed

lemma decode_values_bytes:
  assumes "a_shape v = [length bs]" and "a_dtype v = BytesS w"
    and "a_items v = map Bytes bs" and "map decode bs = map Some ss"
  shows "decode_values v = Inr ss"
  using assms by (simp add: decode_values_def iterated_def decode_items_bytes)

lemma decode_accent: "map decode [[CHR 0xC3, CHR 0xA9]] = map Some [[233]]"
  by code_simp

text \<open>
  Claim C7, as stated, fails when the file already holds the dataset with another shape
  that the array broadcasts to: a column of shape \<open>(2, 1)\<close> written to the dataset of shape
  \<open>(2, 3)\<close> is accepted, and reading back yields an array of shape \<open>(2, 3)\<close>.
\<close>

theorem round_trip_broadcast_counterexample:
  "fst (write_data_and_label example_store ''f.h5'' ''image'' column_data example_label) = None
   \<and> read_dataset
        (snd (write_data_and_label example_store ''f.h5'' ''image'' column_data example_label))
        ''f.h5'' ''image'' = Inr (float32_array \<lparr>shape = [2, 3], elems = [7, 7, 7, 8, 8, 8]\<rparr>)
   \<and> float32_array \<lparr>shape = [2, 3], elems = [7, 7, 7, 8, 8, 8]\<rparr> \<noteq> float32_array column_data"
proof -
  have w: "wf_array column_data"
    by (simp add: wf_array_def column_data_def)
  have x: "example_store ''f.h5'' = H5File [''image'' \<mapsto> new_dataset [2, 3]]
      \<and> [''image'' \<mapsto> new_dataset [2, 3]] ''image'' = Some (new_dataset [2, 3])
      \<and> prod_list (ds_shape (new_dataset [2, 3])) \<noteq> 0
      \<and> broadcastable (shape column_data) (ds_shape (new_dataset [2, 3]))
      \<and> convertible (ds_dtype (new_dataset [2, 3]))
      \<and> prod_list (shape column_data) \<noteq> 0"
    by (simp add: example_store_file new_dataset_def column_data_def broadcastable_def
        convertible_def)
  have bc: "broadcast_elems column_data (ds_shape (new_dataset [2, 3])) = [7, 7, 7, 8, 8, 8]"
    by code_simp
  have "path_exists example_store ''f.h5''"
    using x by (blast intro: path_exists_H5File)
  then have "write_data_and_label example_store ''f.h5'' ''image'' column_data example_label =
      write_opened example_store ''f.h5'' ''image'' column_data example_label"
    by (rule write_existing)
  also have "\<dots> = (None, example_store(''f.h5'' := H5File ([''image'' \<mapsto> new_dataset [2, 3]]
      (''image'' \<mapsto> stored (new_dataset [2, 3])
         (broadcast_elems column_data (ds_shape (new_dataset [2, 3]))) example_label))))"
    using x example_label_storable by (intro write_opened_ok) simp_all
  finally have res: "write_data_and_label example_store ''f.h5'' ''image'' column_data
      example_label = (None, example_store(''f.h5'' := H5File ([''image'' \<mapsto> new_dataset [2, 3]]
      (''image'' \<mapsto> stored (new_dataset [2, 3])
         (broadcast_elems column_data (ds_shape (new_dataset [2, 3]))) example_label))))" .
  have rd: "read_dataset (example_store(''f.h5'' := H5File ([''image'' \<mapsto> new_dataset [2, 3]]
      (''image'' \<mapsto> stored (new_dataset [2, 3])
         (broadcast_elems column_data (ds_shape (new_dataset [2, 3]))) example_label))))
      ''f.h5'' ''image'' = Inr (float32_array \<lparr>shape = [2, 3], elems = [7, 7, 7, 8, 8, 8]\<rparr>)"
    unfolding read_after_update(1) bc
    by (simp add: stored_def new_dataset_def float32_array_def to_cell_def)
  have ne: "float32_array \<lparr>shape = [2, 3], elems = [7, 7, 7, 8, 8, 8]\<rparr>
      \<noteq> float32_array column_data"
    by (simp add: float32_array_def column_data_def)
  from rd ne show ?thesis
    unfolding res fst_conv snd_conv by (intro conjI) (rule refl)
qed

text \<open>
  Claim C7, amended (round trip). For a well-formed data array of shape S and a label array:
  if write\_data\_and\_label returns normally, and the file did not exist before or its
  (well-formed) dataset of that name had shape S and 32-bit float elements, then reading the
  dataset back yields the original array as a 32-bit float array, element for element, and
  the label attribute read back is the original label array; when that is a
  one-dimensional array of byte strings that are the UTF-8 encodings of some strings,
  decoding the elements of what is read back yields exactly those strings.
\<close>

theorem round_trip:
  assumes "wf_array a"
    and "write_data_and_label st p n a l = (None, st')"
    and "\<not> path_exists st p
         \<or> (\<exists>f d. st p = H5File f \<and> f n = Some d \<and> ds_shape d = shape a
                \<and> ds_dtype d = Float32 \<and> length (ds_data d) = prod_list (ds_shape d))"
  shows "read_dataset st' p n = Inr (float32_array a)
       \<and> read_label st' p n = Inr (ArrayValue l)
       \<and> (a_shape l = [length bs] \<and> a_dtype l = BytesS w \<and> a_items l = map Bytes bs
            \<and> map decode bs = map Some ss
          \<longrightarrow> (\<exists>v. read_label st' p n = Inr (ArrayValue v) \<and> decode_values v = Inr ss))"
proof -
  have rt: "read_dataset st' p n = Inr (float32_array a)
      \<and> read_label st' p n = Inr (ArrayValue l)"
  proof (cases "path_exists st p")
    case True
    with assms(3) obtain f d where f: "st p = H5File f" and d: "f n = Some d"
      and s: "ds_shape d = shape a" and t: "ds_dtype d = Float32"
      and len: "length (ds_data d) = prod_list (ds_shape d)"
      by blast
    from True assms(2) have wo: "write_opened st p n a l = (None, st')"
      by (simp add: write_existing)
    from assms(1) f d s t len wo show ?thesis by (rule round_trip_opened)
  next
    case False
    obtain r st1 where su: "setup_hdf5_file st p n (shape a) = (r, st1)"
      by (cases "setup_hdf5_file st p n (shape a)")
    from False su assms(2) have r: "r = None"
      by (cases r) (simp_all add: write_data_and_label_def)
    from False su r assms(2) have wo: "write_opened st1 p n a l = (None, st')"
      by (simp add: write_data_and_label_def)
    from setup_success_new [OF False] su r
    have st1: "st1 = st(p := H5File [n \<mapsto> new_dataset (shape a)])" by simp
    have f: "st1 p = H5File [n \<mapsto> new_dataset (shape a)]" by (simp add: st1)
    have d: "[n \<mapsto> new_dataset (shape a)] n = Some (new_dataset (shape a))" by simp
    have s: "ds_shape (new_dataset (shape a)) = shape a" by (simp add: new_dataset_def)
    have t: "ds_dtype (new_dataset (shape a)) = Float32" by (simp add: new_dataset_def)
    from assms(1) f d s t length_new_dataset wo show ?thesis by (rule round_trip_opened)
  qed
  have "\<exists>v. read_label st' p n = Inr (ArrayValue v) \<and> decode_values v = Inr ss"
    if "a_shape l = [length bs]" and "a_dtype l = BytesS w" and "a_items l = map Bytes bs"
      and "map decode bs = map Some ss"
  proof -
    from that have "decode_values l = Inr ss" by (rule decode_values_bytes)
    with rt show ?thesis by blast
  qed
  with rt show ?thesis by blast
qed

lemma accent_write_example:
  "write_data_and_label fresh_store ''f.h5'' ''image'' example_data accent_label =
     (None, fresh_store(''f.h5'' := H5File [''image'' \<mapsto>
        stored (new_dataset [2, 3]) [1, 2, 3, 4, 5, 6] accent_label]))"
proof -
  have "write_data_and_label fresh_store ''f.h5'' ''image'' example_data accent_label =
     (None, fresh_store(''f.h5'' := H5File [''image'' \<mapsto>
        stored (new_dataset (shape example_data)) (elems example_data) accent_label]))"
    using example_layout
    by (intro write_new_file example_data_wf)
      (simp_all add: fresh_store_def example_data_def accent_label_def)
  then show ?thesis by (simp add: example_data_def)
qed

theorem round_trip_witness:
  "read_dataset
     (snd (write_data_and_label fresh_store ''f.h5'' ''image'' example_data accent_label))
     ''f.h5'' ''image'' = Inr (float32_array example_data)
   \<and> read_label
     (snd (write_data_and_label fresh_store ''f.h5'' ''image'' example_data accent_label))
     ''f.h5'' ''image'' = Inr (ArrayValue accent_label)
   \<and> (\<exists>v. read_label
          (snd (write_data_and_label fresh_store ''f.h5'' ''image'' example_data accent_label))
          ''f.h5'' ''image'' = Inr (ArrayValue v)
        \<and> decode_values v = Inr [[233]])
   \<and> fst (write_data_and_label fresh_store ''f.h5'' ''image'' example_data accent_label) = None
   \<and> \<not> path_exists fresh_store ''f.h5''"
proof -
  let ?w = "write_data_and_label fresh_store ''f.h5'' ''image'' example_data accent_label"
  have w: "?w = (None, snd ?w)" by (simp add: accent_write_example)
  have ne': "\<not> path_exists fresh_store ''f.h5''"
    by (simp add: path_exists_def fresh_store_def)
  then have ne: "\<not> path_exists fresh_store ''f.h5''
      \<or> (\<exists>f d. fresh_store ''f.h5'' = H5File f \<and> f ''image'' = Some d
            \<and> ds_shape d = shape example_data \<and> ds_dtype d = Float32
            \<and> length (ds_data d) = prod_list (ds_shape d))"
    by (rule disjI1)
  have l: "a_shape accent_label = [length [[CHR 0xC3, CHR 0xA9]]]
      \<and> a_dtype accent_label = BytesS 2
      \<and> a_items accent_label = map Bytes [[CHR 0xC3, CHR 0xA9]]
      \<and> map decode [[CHR 0xC3, CHR 0xA9]] = map Some [[233]]"
    using decode_accent by (simp add: accent_label_def)
  note rt = round_trip [OF example_data_wf w ne, where bs = "[[CHR 0xC3, CHR 0xA9]]"
      and w = 2 and ss = "[[233]]"]
  from rt [THEN conjunct1] rt [THEN conjunct2, THEN conjunct1]
    rt [THEN conjunct2, THEN conjunct2, THEN mp, OF l] w ne'
  show ?thesis by (simp add: prod_eq_iff)
qed

subsection \<open>The effect of a write that returns normally\<close>

lemma assign_all_post:
  assumes "assign_all d a = Inr d1"
  shows "ds_dtype d1 = ds_dtype d" and "ds_attrs d1 = ds_attrs d"
    and "prod_list (ds_shape d) \<noteq> 0 \<Longrightarrow> prod_list (shape a) \<noteq> 0 \<Longrightarrow>
           ds_data d1 = map (to_cell (ds_dtype d)) (broadcast_elems a (ds_shape d))"
  using assms by (auto simp: assign_all_def split: if_splits)

lemma attrs_set_dtype: "attrs_set d k v = Inr d1 \<Longrightarrow> ds_dtype d1 = ds_dtype d"
  by (cases "a_dtype v") (auto simp: attrs_set_def)

lemma write_opened_post:
  assumes "write_opened st p n a l = (None, st')"
  shows "\<exists>f d d'. st p = H5File f \<and> f n = Some d \<and> st' = st(p := H5File (f(n \<mapsto> d')))
      \<and> ds_shape d' = ds_shape d \<and> ds_chunks d' = ds_chunks d \<and> ds_dtype d' = ds_dtype d
      \<and> (prod_list (ds_shape d) \<noteq> 0 \<and> prod_list (shape a) \<noteq> 0 \<longrightarrow>
            ds_data d' = map (to_cell (ds_dtype d)) (broadcast_elems a (ds_shape d)))
      \<and> map_of (ds_attrs d') ''label'' = Some (ArrayValue l)"
proof -
  from write_opened_success [OF assms]
  obtain f d d1 d2 where f: "st p = H5File f" and d: "f n = Some d"
    and a1: "assign_all d a = Inr d1" and a2: "attrs_set d1 ''label'' l = Inr d2"
    and st': "st' = st(p := H5File (f(n \<mapsto> d2)))"
    by blast
  from assign_all_layout [OF a1] attrs_set_layout [OF a2]
  have lay: "ds_shape d2 = ds_shape d \<and> ds_chunks d2 = ds_chunks d"
    and lab: "map_of (ds_attrs d2) ''label'' = Some (ArrayValue l)"
    and dat: "ds_data d2 = ds_data d1"
    by simp_all
  from assign_all_post(1) [OF a1] attrs_set_dtype [OF a2]
  have ty: "ds_dtype d2 = ds_dtype d" by simp
  from assign_all_post(3) [OF a1] dat
  have "prod_list (ds_shape d) \<noteq> 0 \<and> prod_list (shape a) \<noteq> 0 \<longrightarrow>
      ds_data d2 = map (to_cell (ds_dtype d)) (broadcast_elems a (ds_shape d))"
    by simp
  with f d st' lay lab ty show ?thesis by blast
qed

lemma write_post:
  assumes wf: "wf_array a" and w: "write_data_and_label st p n a l = (None, st')"
  shows "\<exists>f' d'. st' p = H5File f' \<and> f' n = Some d'
      \<and> (prod_list (ds_shape d') \<noteq> 0 \<and> prod_list (shape a) \<noteq> 0 \<longrightarrow>
            ds_data d' = map (to_cell (ds_dtype d')) (broadcast_elems a (ds_shape d')))
      \<and> map_of (ds_attrs d') ''label'' = Some (ArrayValue l)
      \<and> (\<not> path_exists st p \<longrightarrow>
            f' = [n \<mapsto> d'] \<and> ds_shape d' = shape a \<and> ds_chunks d' = 1 # drop 1 (shape a)
            \<and> ds_dtype d' = Float32 \<and> ds_data d' = map F32 (elems a))
      \<and> (\<forall>f d. st p = H5File f \<and> f n = Some d \<longrightarrow>
            ds_shape d' = ds_shape d \<and> ds_chunks d' = ds_chunks d \<and> ds_dtype d' = ds_dtype d
            \<and> (\<forall>m. m \<noteq> n \<longrightarrow> f' m = f m))"
proof (cases "path_exists st p")
  case True
  with w have wo: "write_opened st p n a l = (None, st')"
    by (simp add: write_existing)
  from write_opened_post [OF wo]
  obtain f d d' where f: "st p = H5File f" and d: "f n = Some d"
    and st': "st' = st(p := H5File (f(n \<mapsto> d')))"
    and lay: "ds_shape d' = ds_shape d" "ds_chunks d' = ds_chunks d" "ds_dtype d' = ds_dtype d"
    and dat: "prod_list (ds_shape d) \<noteq> 0 \<and> prod_list (shape a) \<noteq> 0 \<longrightarrow>
        ds_data d' = map (to_cell (ds_dtype d)) (broadcast_elems a (ds_shape d))"
    and lab: "map_of (ds_attrs d') ''label'' = Some (ArrayValue l)"
    by blast
  have "st' p = H5File (f(n \<mapsto> d'))" and "(f(n \<mapsto> d')) n = Some d'"
    by (simp_all add: st')
  moreover have "\<forall>m. m \<noteq> n \<longrightarrow> (f(n \<mapsto> d')) m = f m" by simp
  ultimately show ?thesis using True f d lay dat lab by auto
next
  case False
  obtain r st1 where su: "setup_hdf5_file st p n (shape a) = (r, st1)"
    by (cases "setup_hdf5_file st p n (shape a)")
  from False su w have r: "r = None"
    by (cases r) (simp_all add: write_data_and_label_def)
  from False su r w have wo: "write_opened st1 p n a l = (None, st')"
    by (simp add: write_data_and_label_def)
  from setup_success_new [OF False] su r
  have st1: "st1 = st(p := H5File [n \<mapsto> new_dataset (shape a)])" by simp
  from write_opened_post [OF wo]
  obtain f d d' where f: "st1 p = H5File f" and d: "f n = Some d"
    and st': "st' = st1(p := H5File (f(n \<mapsto> d')))"
    and lay: "ds_shape d' = ds_shape d" "ds_chunks d' = ds_chunks d" "ds_dtype d' = ds_dtype d"
    and lab: "map_of (ds_attrs d') ''label'' = Some (ArrayValue l)"
    by blast
  from f st1 have feq: "f = [n \<mapsto> new_dataset (shape a)]" by simp
  with d have deq: "d = new_dataset (shape a)" by simp
  have fin: "f(n \<mapsto> d') = [n \<mapsto> d']" by (simp add: feq)
  have rt: "read_dataset st' p n = Inr (float32_array a)"
    using round_trip_opened [OF wf, of st1 p "[n \<mapsto> new_dataset (shape a)]" n
        "new_dataset (shape a)" l st'] wo length_new_dataset
    by (simp add: st1 new_dataset_def)
  have "read_dataset st' p n =
      Inr \<lparr>r_shape = ds_shape d', r_dtype = ds_dtype d', r_cells = ds_data d'\<rparr>"
    unfolding st' by (rule read_after_update(1))
  with rt have da: "ds_data d' = map F32 (elems a)" and sh: "ds_shape d' = shape a"
    and ty: "ds_dtype d' = Float32"
    by (simp_all add: float32_array_def)
  have "to_cell Float32 = F32" by (rule ext) (simp add: to_cell_def)
  with ty have bc: "map (to_cell (ds_dtype d')) (broadcast_elems a (ds_shape d')) =
      map F32 (elems a)"
    using broadcast_elems_same [OF wf] sh by simp
  have "st' p = H5File [n \<mapsto> d']" and "[n \<mapsto> d'] n = Some d'"
    by (simp_all add: st' fin)
  moreover from False have "\<forall>f d. \<not> (st p = H5File f \<and> f n = Some d)"
    by (auto simp: path_exists_def)
  ultimately show ?thesis
    using False lay lab da sh bc deq by (auto simp: new_dataset_def)
qed

text \<open>
  Claim C5, as stated, fails: not every call gets as far as replacing the dataset and
  setting the label. On an existing container file that holds the dataset \<open>image\<close> only,
  the call for the dataset \<open>labels\<close> raises KeyError and leaves the file as it was.
\<close>

theorem write_data_and_label_absent_dataset_counterexample:
  "path_exists example_store ''f.h5''
   \<and> write_data_and_label example_store ''f.h5'' ''labels'' example_row example_label =
       (Some KeyError, example_store)"
proof -
  have e: "path_exists example_store ''f.h5''"
    by (simp add: example_store_file path_exists_H5File)
  then have "write_data_and_label example_store ''f.h5'' ''labels'' example_row example_label =
      write_opened example_store ''f.h5'' ''labels'' example_row example_label"
    by (rule write_existing)
  also have "\<dots> = (Some KeyError, example_store)"
    by (rule write_opened_no_dataset [where f = "[''image'' \<mapsto> new_dataset [2, 3]]"])
      (simp_all add: example_store_file)
  finally show ?thesis using e by (intro conjI)
qed

text \<open>
  Claim C5, amended (what write\_data\_and\_label does). For a well-formed data array:
  whenever the call returns normally, the store holds at the path a container file with the
  named dataset, every element of a non-empty dataset comes from the (non-empty) data array,
  broadcast to the dataset's shape (the array itself when the shapes agree) and converted to
  the dataset's element type, and its label attribute is the label array; if no file existed
  before, the file holds just this dataset, created with the data array's shape and 32-bit
  float elements, and its elements are the array's; if the dataset existed, its shape,
  chunking and element type and the other datasets of the file are as before. The call does
  return normally on a missing file that can be created, for a shape that admits the chunked
  layout, and on an existing non-empty dataset of a numeric element type that the non-empty
  array broadcasts to, when the label array can be stored. When the file exists no setup
  takes place, and no other path of the store changes: the call returns nothing, its effect
  is on the store.
\<close>

theorem write_data_and_label_effect:
  assumes "wf_array data_array"
  shows "(write_data_and_label st p n data_array label_array = (None, st') \<longrightarrow>
          (\<exists>f' d'. st' p = H5File f' \<and> f' n = Some d'
             \<and> (prod_list (ds_shape d') \<noteq> 0 \<and> prod_list (shape data_array) \<noteq> 0 \<longrightarrow>
                  ds_data d' = map (to_cell (ds_dtype d'))
                                 (broadcast_elems data_array (ds_shape d')))
             \<and> map_of (ds_attrs d') ''label'' = Some (ArrayValue label_array)
             \<and> (\<not> path_exists st p \<longrightarrow>
                  f' = [n \<mapsto> d'] \<and> ds_shape d' = shape data_array
                  \<and> ds_chunks d' = 1 # drop 1 (shape data_array)
                  \<and> ds_dtype d' = Float32 \<and> ds_data d' = map F32 (elems data_array))
             \<and> (\<forall>f d. st p = H5File f \<and> f n = Some d \<longrightarrow>
                  ds_shape d' = ds_shape d \<and> ds_chunks d' = ds_chunks d
                  \<and> ds_dtype d' = ds_dtype d \<and> (\<forall>m. m \<noteq> n \<longrightarrow> f' m = f m))))
       \<and> (st p = Missing True
            \<and> chunked_layout_ok (shape data_array) (1 # drop 1 (shape data_array))
            \<and> (\<forall>k. a_dtype label_array \<noteq> UnicodeU k)
            \<longrightarrow> write_data_and_label st p n data_array label_array =
                  (None, st(p := H5File [n \<mapsto>
                     stored (new_dataset (shape data_array)) (elems data_array) label_array])))
       \<and> (st p = H5File f \<and> f n = Some d \<and> prod_list (ds_shape d) \<noteq> 0
            \<and> convertible (ds_dtype d) \<and> prod_list (shape data_array) \<noteq> 0
            \<and> broadcastable (shape data_array) (ds_shape d)
            \<and> (\<forall>k. a_dtype label_array \<noteq> UnicodeU k)
            \<longrightarrow> write_data_and_label st p n data_array label_array =
                  (None, st(p := H5File (f(n \<mapsto>
                     stored d (broadcast_elems data_array (ds_shape d)) label_array)))))
       \<and> (ds_shape d = shape data_array
            \<longrightarrow> broadcast_elems data_array (ds_shape d) = elems data_array)
       \<and> (path_exists st p
            \<longrightarrow> write_data_and_label st p n data_array label_array =
                  write_opened st p n data_array label_array)
       \<and> (\<forall>q. q \<noteq> p \<longrightarrow> snd (write_data_and_label st p n data_array label_array) q = st q)"
proof -
  have post: "write_data_and_label st p n data_array label_array = (None, st') \<longrightarrow>
      (\<exists>f' d'. st' p = H5File f' \<and> f' n = Some d'
         \<and> (prod_list (ds_shape d') \<noteq> 0 \<and> prod_list (shape data_array) \<noteq> 0 \<longrightarrow>
              ds_data d' = map (to_cell (ds_dtype d'))
                             (broadcast_elems data_array (ds_shape d')))
         \<and> map_of (ds_attrs d') ''label'' = Some (ArrayValue label_array)
         \<and> (\<not> path_exists st p \<longrightarrow>
              f' = [n \<mapsto> d'] \<and> ds_shape d' = shape data_array
              \<and> ds_chunks d' = 1 # drop 1 (shape data_array)
              \<and> ds_dtype d' = Float32 \<and> ds_data d' = map F32 (elems data_array))
         \<and> (\<forall>f d. st p = H5File f \<and> f n = Some d \<longrightarrow>
              ds_shape d' = ds_shape d \<and> ds_chunks d' = ds_chunks d
              \<and> ds_dtype d' = ds_dtype d \<and> (\<forall>m. m \<noteq> n \<longrightarrow> f' m = f m)))"
    using write_post [OF assms] by blast
  have a: "st p = Missing True
      \<and> chunked_layout_ok (shape data_array) (1 # drop 1 (shape data_array))
      \<and> (\<forall>k. a_dtype label_array \<noteq> UnicodeU k)
      \<longrightarrow> write_data_and_label st p n data_array label_array =
            (None, st(p := H5File [n \<mapsto>
               stored (new_dataset (shape data_array)) (elems data_array) label_array]))"
    using assms by (blast intro: write_new_file)
  have b: "st p = H5File f \<and> f n = Some d \<and> prod_list (ds_shape d) \<noteq> 0
      \<and> convertible (ds_dtype d) \<and> prod_list (shape data_array) \<noteq> 0
      \<and> broadcastable (shape data_array) (ds_shape d)
      \<and> (\<forall>k. a_dtype label_array \<noteq> UnicodeU k)
      \<longrightarrow> write_data_and_label st p n data_array label_array =
            (None, st(p := H5File (f(n \<mapsto>
               stored d (broadcast_elems data_array (ds_shape d)) label_array))))"
  proof
    assume h: "st p = H5File f \<and> f n = Some d \<and> prod_list (ds_shape d) \<noteq> 0
      \<and> convertible (ds_dtype d) \<and> prod_list (shape data_array) \<noteq> 0
      \<and> broadcastable (shape data_array) (ds_shape d)
      \<and> (\<forall>k. a_dtype label_array \<noteq> UnicodeU k)"
    then have "path_exists st p" by (blast intro: path_exists_H5File)
    then have "write_data_and_label st p n data_array label_array =
        write_opened st p n data_array label_array"
      by (rule write_existing)
    also have "\<dots> = (None, st(p := H5File (f(n \<mapsto>
        stored d (broadcast_elems data_array (ds_shape d)) label_array))))"
      using h by (blast intro: write_opened_ok)
    finally show "write_data_and_label st p n data_array label_array =
        (None, st(p := H5File (f(n \<mapsto>
           stored d (broadcast_elems data_array (ds_shape d)) label_array))))" .
  qed
  have c: "ds_shape d = shape data_array
      \<longrightarrow> broadcast_elems data_array (ds_shape d) = elems data_array"
    using broadcast_elems_same [OF assms] by simp
  have e: "path_exists st p \<longrightarrow> write_data_and_label st p n data_array label_array =
      write_opened st p n data_array label_array"
    by (simp add: write_existing)
  have g: "\<forall>q. q \<noteq> p \<longrightarrow> snd (write_data_and_label st p n data_array label_array) q = st q"
    by (simp add: write_other_paths)
  from post a b c e g show ?thesis by blast
qed

theorem write_data_and_label_effect_witness:
  "write_data_and_label fresh_store ''f.h5'' ''image'' example_data example_label =
     (None, fresh_store(''f.h5'' := H5File [''image'' \<mapsto>
        stored (new_dataset [2, 3]) [1, 2, 3, 4, 5, 6] example_label]))
   \<and> write_data_and_label example_store ''f.h5'' ''image'' example_row example_label =
     (None, example_store(''f.h5'' := H5File [''image'' \<mapsto>
        stored (new_dataset [2, 3]) [7, 8, 9, 7, 8, 9] example_label]))
   \<and> (\<exists>f' d'. (fresh_store(''f.h5'' := H5File [''image'' \<mapsto>
           stored (new_dataset [2, 3]) [1, 2, 3, 4, 5, 6] example_label])) ''f.h5'' = H5File f'
         \<and> f' ''image'' = Some d' \<and> ds_data d' = map F32 (elems example_data)
         \<and> map_of (ds_attrs d') ''label'' = Some (ArrayValue example_label))"
proof -
  let ?st1 = "fresh_store(''f.h5'' := H5File [''image'' \<mapsto>
      stored (new_dataset [2, 3]) [1, 2, 3, 4, 5, 6] example_label])"
  have m: "fresh_store ''f.h5'' = Missing True
      \<and> chunked_layout_ok (shape example_data) (1 # drop 1 (shape example_data))
      \<and> (\<forall>k. a_dtype example_label \<noteq> UnicodeU k)"
    using example_layout example_label_storable by (simp add: fresh_store_def example_data_def)
  have x: "example_store ''f.h5'' = H5File [''image'' \<mapsto> new_dataset [2, 3]]
      \<and> [''image'' \<mapsto> new_dataset [2, 3]] ''image'' = Some (new_dataset [2, 3])
      \<and> prod_list (ds_shape (new_dataset [2, 3])) \<noteq> 0
      \<and> convertible (ds_dtype (new_dataset [2, 3])) \<and> prod_list (shape example_row) \<noteq> 0
      \<and> broadcastable (shape example_row) (ds_shape (new_dataset [2, 3]))
      \<and> (\<forall>k. a_dtype example_label \<noteq> UnicodeU k)"
    using example_label_storable
    by (simp add: example_store_file new_dataset_def example_row_def broadcastable_def
        convertible_def)
  have bc: "broadcast_elems example_row (ds_shape (new_dataset [2, 3])) = [7, 8, 9, 7, 8, 9]"
    by code_simp
  have ne: "\<not> path_exists fresh_store ''f.h5''"
    by (simp add: path_exists_def fresh_store_def)
  have one: "write_data_and_label fresh_store ''f.h5'' ''image'' example_data example_label =
      (None, ?st1)"
    by (rule first_write_example)
  from write_data_and_label_effect [OF example_data_wf,
      where st = fresh_store and p = "''f.h5''" and n = "''image''"
        and label_array = example_label and st' = ?st1, THEN conjunct1, rule_format, OF one]
  obtain f' d' where f': "?st1 ''f.h5'' = H5File f'" and d': "f' ''image'' = Some d'"
    and lab: "map_of (ds_attrs d') ''label'' = Some (ArrayValue example_label)"
    and new: "\<not> path_exists fresh_store ''f.h5'' \<longrightarrow>
        f' = [''image'' \<mapsto> d'] \<and> ds_shape d' = shape example_data
        \<and> ds_chunks d' = 1 # drop 1 (shape example_data)
        \<and> ds_dtype d' = Float32 \<and> ds_data d' = map F32 (elems example_data)"
    by (elim exE conjE) (rule that, assumption+)
  from new ne have "ds_data d' = map F32 (elems example_data)"
    by (elim impE conjE) assumption+
  with f' d' lab
  have three: "\<exists>f' d'. ?st1 ''f.h5'' = H5File f' \<and> f' ''image'' = Some d'
      \<and> ds_data d' = map F32 (elems example_data)
      \<and> map_of (ds_attrs d') ''label'' = Some (ArrayValue example_label)"
    by (intro exI conjI)
  from write_data_and_label_effect [OF example_row_wf,
      where st = example_store and p = "''f.h5''" and n = "''image''"
        and f = "[''image'' \<mapsto> new_dataset [2, 3]]" and d = "new_dataset [2, 3]"
        and label_array = example_label] x
  have "write_data_and_label example_store ''f.h5'' ''image'' example_row example_label =
     (None, example_store(''f.h5'' := H5File ([''image'' \<mapsto> new_dataset [2, 3]](''image'' \<mapsto>
        stored (new_dataset [2, 3])
          (broadcast_elems example_row (ds_shape (new_dataset [2, 3]))) example_label))))"
    by blast
  then have two: "write_data_and_label example_store ''f.h5'' ''image'' example_row
      example_label = (None, example_store(''f.h5'' := H5File [''image'' \<mapsto>
        stored (new_dataset [2, 3]) [7, 8, 9, 7, 8, 9] example_label]))"
    unfolding bc by simp
  from one two three show ?thesis by (intro conjI)
qed

section \<open>Properties of the structure printer\<close>

lemma print_attrs_all_fine:
  "\<forall>kv\<in>set kvs. snd (print_attr indent kv) = None \<Longrightarrow>
   print_attrs indent kvs = (concat (map (\<lambda>kv. fst (print_attr indent kv)) kvs), None)"
proof (induction kvs)
  case Nil
  show ?case by simp
next
  case (Cons kv kvs)
  then have "print_attrs indent kvs =
      (concat (map (\<lambda>kv. fst (print_attr indent kv)) kvs), None)"
    by simp
  moreover from Cons.prems obtain ls where "print_attr indent kv = (ls, None)"
    by (cases "print_attr indent kv") auto
  ultimately show ?case by (simp add: then_print_def)
qed

lemma decode_xy: "map decode [''x'', ''y''] = map Some [[120], [121]]"
  by code_simp

lemma decode_values_rows:
  assumes "a_shape v = r # c # cs" and "0 < r"
  shows "decode_values v = Inl AttributeError"
  using assms by (cases r) (simp_all add: decode_values_def iterated_def)

text \<open>
  Claim C9, as stated, fails for attributes whose elements are no byte strings: for an
  attribute of three integers the name, shape and type are printed, then \<open>decode\<close> is
  looked up on an integer and the call ends with AttributeError; no values are printed
  although the attribute has fewer than 10 elements.
\<close>

theorem print_numeric_attribute_counterexample:
  "a_size numeric_attr < 10
   \<and> print_attr 2 (''scale'', ArrayValue numeric_attr) =
       ([AttrInfo 6 ''scale'' [3] Int64], Some AttributeError)"
  by (simp add: numeric_attr_def a_size_def print_attr_def print_array_attr_def then_print_def
      decode_values_def iterated_def)

text \<open>
  Claim C9, amended (attribute values). For every attribute of a dataset that is read as an
  array, the line with its name, shape and element type is printed first; an attribute
  read as a Python string ends the call with AttributeError before any line of it. A line
  of values never appears for an attribute of 10 or more elements, which prints that first
  line alone. Whenever printing an array attribute returns normally, the decoded values of
  its elements follow if and only if it has fewer than 10 elements; and it returns normally
  for every one-dimensional array of byte strings that are valid UTF-8, so that for such an
  attribute the decoded values are printed if and only if it has fewer than 10 elements. An
  array of two or more dimensions with fewer than 10 elements and at least one row ends the
  call with AttributeError after the first line. A dataset whose attributes all print
  normally yields its two dataset lines, the attributes line (when it has attributes) and
  the lines of each attribute in turn.
\<close>

theorem print_attribute_values:
  "(\<exists>rest r. print_attr indent (name, ArrayValue v) =
        (AttrInfo (indent + 4) name (a_shape v) (a_dtype v) # rest, r))
   \<and> print_attr indent (name, StrValue s) = ([], Some AttributeError)
   \<and> (snd (print_attr indent (name, ArrayValue v)) = None \<longrightarrow>
        (if a_size v < 10
         then \<exists>values. decode_values v = Inr values
                \<and> print_attr indent (name, ArrayValue v) =
                    ([AttrInfo (indent + 4) name (a_shape v) (a_dtype v),
                      ValuesLine (indent + 4) values], None)
         else print_attr indent (name, ArrayValue v) =
                ([AttrInfo (indent + 4) name (a_shape v) (a_dtype v)], None)))
   \<and> (\<not> a_size v < 10 \<longrightarrow>
        print_attr indent (name, ArrayValue v) =
          ([AttrInfo (indent + 4) name (a_shape v) (a_dtype v)], None))
   \<and> (ValuesLine k values \<in> set (fst (print_attr indent (name, av))) \<longrightarrow>
        (\<exists>u. av = ArrayValue u \<and> a_size u < 10))
   \<and> (a_shape v = [length bs] \<and> a_dtype v = BytesS w \<and> a_items v = map Bytes bs
        \<and> map decode bs = map Some ss \<longrightarrow>
        decode_values v = Inr ss \<and> snd (print_attr indent (name, ArrayValue v)) = None)
   \<and> (a_shape v = rows # c # cs \<and> 0 < rows \<and> a_size v < 10 \<longrightarrow>
        print_attr indent (name, ArrayValue v) =
          ([AttrInfo (indent + 4) name (a_shape v) (a_dtype v)], Some AttributeError))
   \<and> ((\<forall>kv\<in>set (ds_attrs d). snd (print_attr indent kv) = None) \<longrightarrow>
        print_child dname (Dataset d) indent =
          ([DatasetLine indent, DatasetInfo (indent + 4) dname (ds_shape d) (ds_dtype d)]
           @ (if ds_attrs d = [] then [] else [AttributesLine indent])
           @ concat (map (\<lambda>kv. fst (print_attr indent kv)) (ds_attrs d)), None))"
proof -
  note defs = print_attr_def print_array_attr_def then_print_def
  have first: "\<exists>rest r. print_attr indent (name, ArrayValue v) =
      (AttrInfo (indent + 4) name (a_shape v) (a_dtype v) # rest, r)"
    by (simp add: defs)
  have str: "print_attr indent (name, StrValue s) = ([], Some AttributeError)"
    by (simp add: print_attr_def)
  have normal: "snd (print_attr indent (name, ArrayValue v)) = None \<longrightarrow>
      (if a_size v < 10
       then \<exists>values. decode_values v = Inr values
              \<and> print_attr indent (name, ArrayValue v) =
                  ([AttrInfo (indent + 4) name (a_shape v) (a_dtype v),
                    ValuesLine (indent + 4) values], None)
       else print_attr indent (name, ArrayValue v) =
              ([AttrInfo (indent + 4) name (a_shape v) (a_dtype v)], None))"
    by (cases "decode_values v") (simp_all add: defs)
  have large: "\<not> a_size v < 10 \<longrightarrow>
      print_attr indent (name, ArrayValue v) =
        ([AttrInfo (indent + 4) name (a_shape v) (a_dtype v)], None)"
    by (simp add: defs)
  have only_if: "ValuesLine k values \<in> set (fst (print_attr indent (name, av))) \<longrightarrow>
      (\<exists>u. av = ArrayValue u \<and> a_size u < 10)"
    by (cases av) (auto simp: defs split: if_splits)
  have bytes: "a_shape v = [length bs] \<and> a_dtype v = BytesS w \<and> a_items v = map Bytes bs
      \<and> map decode bs = map Some ss \<longrightarrow>
      decode_values v = Inr ss \<and> snd (print_attr indent (name, ArrayValue v)) = None"
  proof
    assume h: "a_shape v = [length bs] \<and> a_dtype v = BytesS w \<and> a_items v = map Bytes bs
      \<and> map decode bs = map Some ss"
    then have "decode_values v = Inr ss"
      by (blast intro: decode_values_bytes)
    then show "decode_values v = Inr ss \<and> snd (print_attr indent (name, ArrayValue v)) = None"
      by (simp add: defs)
  qed
  have matrix: "a_shape v = rows # c # cs \<and> 0 < rows \<and> a_size v < 10 \<longrightarrow>
      print_attr indent (name, ArrayValue v) =
        ([AttrInfo (indent + 4) name (a_shape v) (a_dtype v)], Some AttributeError)"
  proof
    assume h: "a_shape v = rows # c # cs \<and> 0 < rows \<and> a_size v < 10"
    then have "decode_values v = Inl AttributeError"
      by (blast intro: decode_values_rows)
    with h show "print_attr indent (name, ArrayValue v) =
        ([AttrInfo (indent + 4) name (a_shape v) (a_dtype v)], Some AttributeError)"
      by (simp add: defs)
  qed
  have whole: "(\<forall>kv\<in>set (ds_attrs d). snd (print_attr indent kv) = None) \<longrightarrow>
      print_child dname (Dataset d) indent =
        ([DatasetLine indent, DatasetInfo (indent + 4) dname (ds_shape d) (ds_dtype d)]
         @ (if ds_attrs d = [] then [] else [AttributesLine indent])
         @ concat (map (\<lambda>kv. fst (print_attr indent kv)) (ds_attrs d)), None)"
  proof
    assume "\<forall>kv\<in>set (ds_attrs d). snd (print_attr indent kv) = None"
    then have "print_attrs indent (ds_attrs d) =
        (concat (map (\<lambda>kv. fst (print_attr indent kv)) (ds_attrs d)), None)"
      by (rule print_attrs_all_fine)
    then show "print_child dname (Dataset d) indent =
        ([DatasetLine indent, DatasetInfo (indent + 4) dname (ds_shape d) (ds_dtype d)]
         @ (if ds_attrs d = [] then [] else [AttributesLine indent])
         @ concat (map (\<lambda>kv. fst (print_attr indent kv)) (ds_attrs d)), None)"
      by (simp add: print_dataset_def then_print_def)
  qed
  from first str normal large only_if bytes matrix whole show ?thesis by (intro conjI)
qed

theorem print_attribute_values_witness:
  "print_attr 2 (''label'', ArrayValue example_label) =
     ([AttrInfo 6 ''label'' [2] (BytesS 1), ValuesLine 6 [[120], [121]]], None)
   \<and> decode_values accent_label = Inr [[233]]
   \<and> snd (print_attr 2 (''label'', ArrayValue accent_label)) = None
   \<and> print_attr 2 (''label'', ArrayValue long_label) =
       ([AttrInfo 6 ''label'' [10] (BytesS 1)], None)
   \<and> print_attr 2 (''label'', ArrayValue matrix_label) =
       ([AttrInfo 6 ''label'' [2, 2] (BytesS 1)], Some AttributeError)
   \<and> print_child ''image'' (Dataset (stored (new_dataset [2, 3]) [] example_label)) 2 =
       ([DatasetLine 2, DatasetInfo 6 ''image'' [2, 3] Float32, AttributesLine 2,
         AttrInfo 6 ''label'' [2] (BytesS 1), ValuesLine 6 [[120], [121]]], None)"
proof -
  let ?d = "stored (new_dataset [2, 3]) [] example_label"
  have small: "a_size example_label < 10" and large: "\<not> a_size long_label < 10"
    by (simp_all add: a_size_def example_label_def long_label_def)
  have b: "a_shape example_label = [length [''x'', ''y'']] \<and> a_dtype example_label = BytesS 1
      \<and> a_items example_label = map Bytes [''x'', ''y'']
      \<and> map decode [''x'', ''y''] = map Some [[120], [121]]"
    using decode_xy by (simp add: example_label_def)
  have ac: "a_shape accent_label = [length [[CHR 0xC3, CHR 0xA9]]]
      \<and> a_dtype accent_label = BytesS 2
      \<and> a_items accent_label = map Bytes [[CHR 0xC3, CHR 0xA9]]
      \<and> map decode [[CHR 0xC3, CHR 0xA9]] = map Some [[233]]"
    using decode_accent by (simp add: accent_label_def)
  have m: "a_shape matrix_label = 2 # 2 # [] \<and> 0 < (2 :: nat) \<and> a_size matrix_label < 10"
    by (simp add: matrix_label_def a_size_def)
  have fields: "a_shape example_label = [2]" "a_dtype example_label = BytesS 1"
      "a_shape long_label = [10]" "a_dtype long_label = BytesS 1"
      "a_shape matrix_label = [2, 2]" "a_dtype matrix_label = BytesS 1"
    by (simp_all add: example_label_def long_label_def matrix_label_def)
  note label = print_attribute_values [where indent = 2 and name = "''label''"
      and v = example_label and bs = "[''x'', ''y'']" and w = 1 and ss = "[[120], [121]]"]
  note bytes_at = conjunct2 [THEN conjunct2, THEN conjunct2, THEN conjunct2, THEN conjunct2,
      THEN conjunct1]
  from label [THEN bytes_at, rule_format, OF b]
  have dec: "decode_values example_label = Inr [[120], [121]]"
    and ok: "snd (print_attr 2 (''label'', ArrayValue example_label)) = None"
    by (rule conjunct1, rule conjunct2)
  from label [THEN conjunct2, THEN conjunct2, THEN conjunct1, rule_format, OF ok] small
  have "\<exists>values. decode_values example_label = Inr values
      \<and> print_attr 2 (''label'', ArrayValue example_label) =
          ([AttrInfo (2 + 4) ''label'' (a_shape example_label) (a_dtype example_label),
            ValuesLine (2 + 4) values], None)"
    by (simp only: if_True)
  then obtain vs where v1: "decode_values example_label = Inr vs"
    and v2: "print_attr 2 (''label'', ArrayValue example_label) =
          ([AttrInfo (2 + 4) ''label'' (a_shape example_label) (a_dtype example_label),
            ValuesLine (2 + 4) vs], None)"
    by (elim exE conjE)
  from v1 dec have "vs = [[120], [121]]" by simp
  with v2 have one: "print_attr 2 (''label'', ArrayValue example_label) =
      ([AttrInfo 6 ''label'' [2] (BytesS 1), ValuesLine 6 [[120], [121]]], None)"
    unfolding fields by simp
  from print_attribute_values [where indent = 2 and name = "''label''"
      and v = accent_label and bs = "[[CHR 0xC3, CHR 0xA9]]" and w = 2 and ss = "[[233]]",
      THEN bytes_at, rule_format, OF ac]
  have accent: "decode_values accent_label = Inr [[233]]
      \<and> snd (print_attr 2 (''label'', ArrayValue accent_label)) = None" .
  from print_attribute_values [where indent = 2 and name = "''label''" and v = long_label,
      THEN conjunct2, THEN conjunct2, THEN conjunct2, THEN conjunct1, rule_format, OF large]
  have two: "print_attr 2 (''label'', ArrayValue long_label) =
      ([AttrInfo 6 ''label'' [10] (BytesS 1)], None)"
    unfolding fields by simp
  from print_attribute_values [where indent = 2 and name = "''label''" and v = matrix_label
      and rows = 2 and c = 2 and cs = "[]",
      THEN conjunct2, THEN conjunct2, THEN conjunct2, THEN conjunct2, THEN conjunct2,
      THEN conjunct2, THEN conjunct1, rule_format, OF m]
  have four: "print_attr 2 (''label'', ArrayValue matrix_label) =
      ([AttrInfo 6 ''label'' [2, 2] (BytesS 1)], Some AttributeError)"
    unfolding fields by simp
  have attrs: "ds_attrs ?d = [(''label'', ArrayValue example_label)]"
    by (simp add: stored_def new_dataset_def put_attr_def)
  have fine: "\<forall>kv\<in>set (ds_attrs ?d). snd (print_attr 2 kv) = None"
    by (simp add: attrs one)
  from print_attribute_values [where indent = 2 and d = ?d and dname = "''image''",
      THEN conjunct2, THEN conjunct2, THEN conjunct2, THEN conjunct2, THEN conjunct2,
      THEN conjunct2, THEN conjunct2, THEN mp, OF fine]
  have three: "print_child ''image'' (Dataset ?d) 2 =
      ([DatasetLine 2, DatasetInfo (2 + 4) ''image'' (ds_shape ?d) (ds_dtype ?d)]
       @ (if ds_attrs ?d = [] then [] else [AttributesLine 2])
       @ concat (map (\<lambda>kv. fst (print_attr 2 kv)) (ds_attrs ?d)), None)" .
  have "print_child ''image'' (Dataset ?d) 2 =
       ([DatasetLine 2, DatasetInfo 6 ''image'' [2, 3] Float32, AttributesLine 2,
         AttrInfo 6 ''label'' [2] (BytesS 1), ValuesLine 6 [[120], [121]]], None)"
    unfolding three attrs by (simp add: one stored_def new_dataset_def)
  with one accent two four show ?thesis by (intro conjI) (simp_all only:)
qed

end
